theory Spec2Isabelle
  imports Complex_Main "HOL-Library.AList" "HOL-Library.Log_Nat"
begin

section \<open>Values, errors and tables\<close>

text \<open>
  The pipeline is Python on top of pandas. A number in a table is a \<open>real\<close>, with the
  missing value kept apart (\<open>CNull\<close>). The arithmetic that the source itself does on
  floats, in the travel-time estimate, is IEEE double arithmetic: each result is rounded
  to the nearest double, underflows to zero and overflows to infinity. The arithmetic
  inside pandas is exact in the model. Every exception the source can raise is a value
  of \<open>error\<close>.
\<close>

datatype error =
    ParseError | JSONDecodeError | ValueError | TypeError | AttributeError
  | IndexError | KeyError | IOException

text \<open>A decoded JSON document (the result of \<^verbatim>\<open>json.loads\<close>); \<open>JNull\<close> is also Python's \<^verbatim>\<open>None\<close>.\<close>

datatype json =
    JNull | JBool bool | JNum real | JStr string
  | JArr "json list" | JObj "(string \<times> json) list"

text \<open>
  One cell of a pandas DataFrame. \<open>CNull\<close> stands for both \<^verbatim>\<open>None\<close> and \<^verbatim>\<open>NaN\<close>,
  which pandas treats alike as missing.
\<close>

datatype cell =
    CNull | CNum real | CInt int | CBool bool | CStr string
  | CCoords "(real \<times> real) list" | CObj json

type_synonym row = "(string \<times> cell) list"

record dataframe =
  columns :: "string list"
  rows :: "row list"

definition empty_frame :: dataframe where
  \<comment> \<open>\<^verbatim>\<open>pd.DataFrame()\<close>\<close>
  "empty_frame = \<lparr>columns = [], rows = []\<rparr>"

definition frame_empty :: "dataframe \<Rightarrow> bool" where
  \<comment> \<open>\<^verbatim>\<open>df.empty\<close>: some axis has length zero\<close>
  "frame_empty df = (columns df = [] \<or> rows df = [])"

definition cell_at :: "row \<Rightarrow> string \<Rightarrow> cell" where
  "cell_at r c = (case map_of r c of None \<Rightarrow> CNull | Some v \<Rightarrow> v)"

definition column :: "dataframe \<Rightarrow> string \<Rightarrow> cell list" where
  \<comment> \<open>\<^verbatim>\<open>df[col]\<close>\<close>
  "column df c = map (\<lambda>r. cell_at r c) (rows df)"

definition reindex :: "string list \<Rightarrow> row \<Rightarrow> row" where
  \<comment> \<open>a row laid out on the given columns, a column it lacks filled with null\<close>
  "reindex cols r = map (\<lambda>c. (c, cell_at r c)) cols"

fun ordered_union :: "string list \<Rightarrow> string list \<Rightarrow> string list" where
  "ordered_union seen [] = seen"
| "ordered_union seen (c # cs) =
     ordered_union (if c \<in> set seen then seen else seen @ [c]) cs"

definition pd_concat :: "dataframe list \<Rightarrow> dataframe" where
  \<comment> \<open>\<^verbatim>\<open>pd.concat(frames, ignore_index=True)\<close>: the union of the columns in order of
      first appearance, the rows in (frame order, within-frame order)\<close>
  "pd_concat frames =
     (let cols = ordered_union [] (concat (map columns frames))
      in \<lparr>columns = cols,
          rows = concat (map (\<lambda>df. map (reindex cols) (rows df)) frames)\<rparr>)"

definition frame_of_records :: "row list \<Rightarrow> dataframe" where
  \<comment> \<open>\<^verbatim>\<open>pd.DataFrame(records)\<close> for a list of dicts\<close>
  "frame_of_records recs =
     (let cols = ordered_union [] (concat (map (map fst) recs))
      in \<lparr>columns = cols, rows = map (reindex cols) recs\<rparr>)"

definition assign_column :: "dataframe \<Rightarrow> string \<Rightarrow> (cell \<Rightarrow> cell) \<Rightarrow> dataframe" where
  \<comment> \<open>\<^verbatim>\<open>df[col] = f(df[col])\<close> for an element-wise \<open>f\<close> and an existing column\<close>
  "assign_column df c f =
     df\<lparr>rows := map (\<lambda>r. AList.update c (f (cell_at r c)) r) (rows df)\<rparr>"

subsection \<open>The arithmetic mean of a column\<close>

text \<open>A Python value that is \<^verbatim>\<open>None\<close> or a float: a number, NaN or an infinity.\<close>

datatype pyvalue = PyNone | PyNaN | PyFloat real | PyInf | PyNegInf

fun numeric_view :: "cell \<Rightarrow> error + real option" where
  "numeric_view CNull = Inr None"
| "numeric_view (CNum x) = Inr (Some x)"
| "numeric_view (CInt i) = Inr (Some (of_int i))"
| "numeric_view (CBool b) = Inr (Some (if b then 1 else 0))"
| "numeric_view (CStr s) = Inl TypeError"
| "numeric_view (CCoords cs) = Inl TypeError"
| "numeric_view (CObj j) = Inl TypeError"

fun non_null_numbers :: "cell list \<Rightarrow> error + real list" where
  "non_null_numbers [] = Inr []"
| "non_null_numbers (c # cs) =
     (case numeric_view c of
        Inl e \<Rightarrow> Inl e
      | Inr v \<Rightarrow>
          (case non_null_numbers cs of
             Inl e \<Rightarrow> Inl e
           | Inr xs \<Rightarrow> Inr (case v of None \<Rightarrow> xs | Some x \<Rightarrow> x # xs)))"

definition series_mean :: "cell list \<Rightarrow> error + pyvalue" where
  \<comment> \<open>\<^verbatim>\<open>Series.mean()\<close>: nulls are skipped, no value left gives NaN, a cell that is
      not a number raises\<close>
  "series_mean cs =
     (case non_null_numbers cs of
        Inl e \<Rightarrow> Inl e
      | Inr xs \<Rightarrow>
          Inr (if xs = [] then PyNaN else PyFloat (sum_list xs / real (length xs))))"

section \<open>The batch transformer (traffic_transform.py)\<close>

type_synonym averages = "(string \<times> pyvalue) list"

definition numeric_cols_for_avg :: "string list" where
  "numeric_cols_for_avg =
     [''currentSpeed'', ''freeFlowSpeed'', ''currentTravelTime'',
      ''freeFlowTravelTime'', ''confidence'']"

definition avg_key :: "string \<Rightarrow> string" where
  "avg_key col =
     (if col \<in> set [''currentSpeed'', ''freeFlowSpeed''] then ''average_'' @ col @ ''_kmph''
      else if col \<in> set [''currentTravelTime'', ''freeFlowTravelTime'']
        then ''average_'' @ col @ ''_seconds_per_segment''
      else if col = ''confidence'' then ''average_'' @ col @ ''_unitless''
      else ''average_'' @ col)"

fun averages_loop :: "dataframe \<Rightarrow> string list \<Rightarrow> averages \<Rightarrow> error + averages" where
  "averages_loop df [] av = Inr av"
| "averages_loop df (col # cols) av =
     (if col \<in> set (columns df) then
        (case series_mean (column df col) of
           Inl e \<Rightarrow> Inl e
         | Inr m \<Rightarrow> averages_loop df cols (AList.update (avg_key col) m av))
      else if ''average_'' @ col \<notin> fst ` set av then
        averages_loop df cols (AList.update (''average_'' @ col) PyNone av)
      else averages_loop df cols av)"

definition route_distance_meters :: real where
  "route_distance_meters = 5000"

subsection \<open>Float arithmetic\<close>

text \<open>
  The double nearest to a real number. A double is an integer multiple of the spacing
  of its binade, \<open>2\<close> to the power \<open>e - 52\<close> where \<open>2 ^ e \<le> \<bar>x\<bar> < 2 ^ (e + 1)\<close> and
  \<open>e\<close> is at least \<open>- 1022\<close>; a tie goes to the even multiple, and a result of magnitude
  \<open>2 ^ 1024\<close> is an infinity. The sign of a zero is not kept.
\<close>

definition pow2 :: "int \<Rightarrow> real" where
  "pow2 e = (if 0 \<le> e then 2 ^ nat e else 1 / 2 ^ nat (- e))"

definition binade :: "real \<Rightarrow> int" where
  \<comment> \<open>for \<open>0 < x\<close>, the \<open>e\<close> with \<open>2 ^ e \<le> x < 2 ^ (e + 1)\<close>\<close>
  "binade x =
     (if 1 \<le> x then int (floorlog 2 (nat \<lfloor>x\<rfloor>)) - 1
      else - int (floorlog 2 (nat \<lceil>1 / x\<rceil> - 1)))"

definition spacing :: "real \<Rightarrow> real" where
  "spacing x = pow2 (max (binade \<bar>x\<bar>) (- 1022) - 52)"

definition nearest_even :: "real \<Rightarrow> int" where
  "nearest_even y =
     (let f = \<lfloor>y\<rfloor>; r = y - of_int f
      in if r < 1 / 2 then f else if 1 / 2 < r then f + 1 else if even f then f else f + 1)"

definition float_result :: "real \<Rightarrow> pyvalue" where
  "float_result x =
     (if x = 0 then PyFloat 0
      else
        (let u = spacing x; y = of_int (nearest_even (x / u)) * u
         in if pow2 1024 \<le> \<bar>y\<bar> then (if 0 < x then PyInf else PyNegInf) else PyFloat y))"

definition float_mul :: "pyvalue \<Rightarrow> real \<Rightarrow> pyvalue" where
  \<comment> \<open>\<^verbatim>\<open>x * c\<close> for a float \<open>x\<close> and a number \<open>c\<close> above zero\<close>
  "float_mul x c = (case x of PyFloat a \<Rightarrow> float_result (a * c) | _ \<Rightarrow> x)"

definition float_div :: "pyvalue \<Rightarrow> real \<Rightarrow> pyvalue" where
  \<comment> \<open>\<^verbatim>\<open>x / c\<close> for a float \<open>x\<close> and a number \<open>c\<close> above zero\<close>
  "float_div x c = (case x of PyFloat a \<Rightarrow> float_result (a / c) | _ \<Rightarrow> x)"

definition number_div :: "real \<Rightarrow> pyvalue \<Rightarrow> pyvalue" where
  \<comment> \<open>\<^verbatim>\<open>c / x\<close> for a number \<open>c\<close> and a float \<open>x\<close> that is not zero\<close>
  "number_div c x =
     (case x of
        PyFloat a \<Rightarrow> float_result (c / a)
      | PyInf \<Rightarrow> PyFloat 0
      | PyNegInf \<Rightarrow> PyFloat 0
      | _ \<Rightarrow> x)"

definition float_ge_zero :: "pyvalue \<Rightarrow> bool" where
  \<comment> \<open>\<^verbatim>\<open>x >= 0\<close>: false for NaN\<close>
  "float_ge_zero x = (case x of PyFloat a \<Rightarrow> 0 \<le> a | PyInf \<Rightarrow> True | _ \<Rightarrow> False)"

definition float_gt_zero :: "pyvalue \<Rightarrow> bool" where
  \<comment> \<open>\<^verbatim>\<open>x > 0\<close>: false for NaN\<close>
  "float_gt_zero x = (case x of PyFloat a \<Rightarrow> 0 < a | PyInf \<Rightarrow> True | _ \<Rightarrow> False)"

definition estimate_travel_time :: "averages \<Rightarrow> real \<Rightarrow> pyvalue" where
  \<comment> \<open>lines 86 to 105, with the route distance as an argument (a number, never \<^verbatim>\<open>None\<close>);
      \<open>PyNone\<close> is the estimate \<^verbatim>\<open>None\<close>\<close>
  "estimate_travel_time av distance_meters =
     (let avg_current_speed_kmph =
            (case map_of av ''average_currentSpeed_kmph'' of None \<Rightarrow> PyNone | Some v \<Rightarrow> v)
      in if avg_current_speed_kmph \<noteq> PyNone \<and> float_ge_zero avg_current_speed_kmph
            \<and> distance_meters > 0 then
           (let avg_current_speed_mps = float_div (float_mul avg_current_speed_kmph 1000) 3600
            in if float_gt_zero avg_current_speed_mps
               then number_div distance_meters avg_current_speed_mps
               else PyNone)
         else PyNone)"

fun read_frames :: "(string \<Rightarrow> dataframe option) \<Rightarrow> string list \<Rightarrow> dataframe list" where
  \<comment> \<open>the reading loop: \<open>read_parquet f = None\<close> is a read that raises, and is skipped\<close>
  "read_frames read_parquet [] = []"
| "read_frames read_parquet (f_path # rest) =
     (case read_parquet f_path of
        None \<Rightarrow> read_frames read_parquet rest
      | Some df \<Rightarrow> df # read_frames read_parquet rest)"

text \<open>
  The body of \<^verbatim>\<open>transform_traffic_data\<close>, with its local constant
  \<^verbatim>\<open>route_distance_meters\<close> as an argument and the file reads as the function
  \<open>read_parquet\<close>. A mean that raises is not caught, and ends the call.
\<close>

definition transform_with_distance ::
  "real \<Rightarrow> (string \<Rightarrow> dataframe option) \<Rightarrow> string list
     \<Rightarrow> error + (dataframe \<times> averages \<times> pyvalue)" where
  "transform_with_distance distance_meters read_parquet file_paths =
     (if file_paths = [] then Inr (empty_frame, [], PyNone)
      else
        (let all_dataframes = read_frames read_parquet file_paths
         in if all_dataframes = [] then Inr (empty_frame, [], PyNone)
            else
              (let combined_df = pd_concat all_dataframes
               in case averages_loop combined_df numeric_cols_for_avg [] of
                    Inl e \<Rightarrow> Inl e
                  | Inr av \<Rightarrow> Inr (combined_df, av, estimate_travel_time av distance_meters))))"

definition transform_traffic_data ::
  "(string \<Rightarrow> dataframe option) \<Rightarrow> string list
     \<Rightarrow> error + (dataframe \<times> averages \<times> pyvalue)" where
  "transform_traffic_data = transform_with_distance route_distance_meters"

section \<open>Library calls taken as parameters\<close>

text \<open>
  The parsers call the XML and JSON decoders and two string-to-float conversions of the
  Python libraries. They are parameters of the model, so every theorem below holds
  whatever these functions accept: \<open>None\<close> is the call raising
  (\<^verbatim>\<open>ET.ParseError\<close>, \<^verbatim>\<open>json.JSONDecodeError\<close>, \<^verbatim>\<open>ValueError\<close>) or, for
  \<^verbatim>\<open>pd.to_numeric(errors='coerce')\<close>, a string that is coerced to NaN.
\<close>

datatype element =
  Element (elem_tag: string) (elem_text: "string option") (elem_children: "element list")

record library =
  ET_fromstring :: "string \<Rightarrow> element option"
  py_float :: "string \<Rightarrow> real option"
  pd_to_numeric :: "string \<Rightarrow> real option"
  json_loads :: "string \<Rightarrow> json option"

definition element_find :: "element \<Rightarrow> string \<Rightarrow> element option" where
  \<comment> \<open>\<^verbatim>\<open>e.find(tag)\<close>: the first direct child with that tag\<close>
  "element_find e t = List.find (\<lambda>c. elem_tag c = t) (elem_children e)"

definition element_findall :: "element \<Rightarrow> string \<Rightarrow> element list" where
  \<comment> \<open>\<^verbatim>\<open>e.findall(tag)\<close>: the direct children with that tag, in document order\<close>
  "element_findall e t = filter (\<lambda>c. elem_tag c = t) (elem_children e)"

definition lower_char :: "char \<Rightarrow> char" where
  \<comment> \<open>\<^verbatim>\<open>str.lower\<close> on the ASCII letters\<close>
  "lower_char c =
     (case map_of (zip ''ABCDEFGHIJKLMNOPQRSTUVWXYZ'' ''abcdefghijklmnopqrstuvwxyz'') c of
        None \<Rightarrow> c
      | Some l \<Rightarrow> l)"

definition to_numeric_coerce :: "library \<Rightarrow> cell \<Rightarrow> cell" where
  \<comment> \<open>\<^verbatim>\<open>pd.to_numeric(series, errors='coerce')\<close>, cell by cell\<close>
  "to_numeric_coerce L c =
     (case c of
        CStr s \<Rightarrow> (case pd_to_numeric L s of None \<Rightarrow> CNull | Some x \<Rightarrow> CNum x)
      | CCoords cs \<Rightarrow> CNull
      | CObj j \<Rightarrow> CNull
      | _ \<Rightarrow> c)"

definition coerce_columns :: "library \<Rightarrow> string list \<Rightarrow> dataframe \<Rightarrow> dataframe" where
  \<comment> \<open>the loop \<^verbatim>\<open>for col in numeric_cols: if col in df.columns: df[col] = pd.to_numeric(...)\<close>\<close>
  "coerce_columns L cols df =
     fold (\<lambda>col d. if col \<in> set (columns d) then assign_column d col (to_numeric_coerce L) else d)
       cols df"

section \<open>The traffic parser (extract_traffic.py)\<close>

definition scalar_tags :: "string list" where
  "scalar_tags =
     [''frc'', ''currentSpeed'', ''freeFlowSpeed'', ''currentTravelTime'',
      ''freeFlowTravelTime'', ''confidence'', ''roadClosure'']"

definition traffic_numeric_cols :: "string list" where
  "traffic_numeric_cols =
     [''currentSpeed'', ''freeFlowSpeed'', ''currentTravelTime'',
      ''freeFlowTravelTime'', ''confidence'']"

definition scalar_cell :: "element \<Rightarrow> string \<Rightarrow> cell" where
  \<comment> \<open>\<^verbatim>\<open>element.text if element is not None else None\<close>\<close>
  "scalar_cell root_elem t =
     (case element_find root_elem t of
        None \<Rightarrow> CNull
      | Some el \<Rightarrow> (case elem_text el of None \<Rightarrow> CNull | Some s \<Rightarrow> CStr s))"

definition coordinate_value :: "library \<Rightarrow> element option \<Rightarrow> error + real option" where
  \<comment> \<open>\<^verbatim>\<open>float(el.text) if el is not None and el.text else None\<close>\<close>
  "coordinate_value L el =
     (case el of
        None \<Rightarrow> Inr None
      | Some e \<Rightarrow>
          (case elem_text e of
             None \<Rightarrow> Inr None
           | Some s \<Rightarrow>
               if s = [] then Inr None
               else (case py_float L s of None \<Rightarrow> Inl ValueError | Some x \<Rightarrow> Inr (Some x))))"

fun coordinates_loop :: "library \<Rightarrow> element list \<Rightarrow> error + (real \<times> real) list" where
  "coordinates_loop L [] = Inr []"
| "coordinates_loop L (coord_elem # rest) =
     (case coordinate_value L (element_find coord_elem ''latitude'') of
        Inl e \<Rightarrow> Inl e
      | Inr lat \<Rightarrow>
          (case coordinate_value L (element_find coord_elem ''longitude'') of
             Inl e \<Rightarrow> Inl e
           | Inr lon \<Rightarrow>
               (case coordinates_loop L rest of
                  Inl e \<Rightarrow> Inl e
                | Inr kept \<Rightarrow>
                    Inr (case (lat, lon) of
                           (Some la, Some lo) \<Rightarrow> (la, lo) # kept
                         | _ \<Rightarrow> kept))))"

definition coordinate_entries :: "element \<Rightarrow> element list" where
  \<comment> \<open>the elements the loop over \<^verbatim>\<open>coords_element.findall('coordinate')\<close> visits; none
      when there is no \<^verbatim>\<open>coordinates\<close> element\<close>
  "coordinate_entries root_elem =
     (case element_find root_elem ''coordinates'' of
        None \<Rightarrow> []
      | Some coords_element \<Rightarrow> element_findall coords_element ''coordinate'')"

definition segment_record :: "library \<Rightarrow> element \<Rightarrow> error + row" where
  "segment_record L root_elem =
     (case coordinates_loop L (coordinate_entries root_elem) of
        Inl e \<Rightarrow> Inl e
      | Inr coordinates_list \<Rightarrow>
          Inr (map (\<lambda>t. (t, scalar_cell root_elem t)) scalar_tags @
               [(''coordinate_count'', CInt (int (length coordinates_list))),
                (''coordinates'', CCoords coordinates_list)]))"

definition road_closure_flag :: "cell \<Rightarrow> cell" where
  \<comment> \<open>\<^verbatim>\<open>.astype(str).str.lower() == 'true'\<close>; \<^verbatim>\<open>str(None)\<close> is \<^verbatim>\<open>'None'\<close>\<close>
  "road_closure_flag c =
     (case c of
        CStr s \<Rightarrow> CBool (map lower_char s = ''true'')
      | CBool b \<Rightarrow> CBool b
      | _ \<Rightarrow> CBool False)"

definition parse_traffic_response_to_dataframe :: "library \<Rightarrow> string \<Rightarrow> dataframe" where
  \<comment> \<open>both \<^verbatim>\<open>except\<close> clauses return the empty frame\<close>
  "parse_traffic_response_to_dataframe L xml_data =
     (if xml_data = [] then empty_frame
      else
        (case ET_fromstring L xml_data of
           None \<Rightarrow> empty_frame
         | Some root_elem \<Rightarrow>
             (case segment_record L root_elem of
                Inl e \<Rightarrow> empty_frame
              | Inr segment_data \<Rightarrow>
                  (let df = coerce_columns L traffic_numeric_cols (frame_of_records [segment_data])
                   in if ''roadClosure'' \<in> set (columns df)
                      then assign_column df ''roadClosure'' road_closure_flag
                      else df))))"

section \<open>The weather parser (extract_weather.py)\<close>

definition py_get :: "json \<Rightarrow> string \<Rightarrow> json \<Rightarrow> error + json" where
  \<comment> \<open>\<^verbatim>\<open>obj.get(key, default)\<close>: only a dict has the method\<close>
  "py_get obj k dflt =
     (case obj of
        JObj kvs \<Rightarrow> Inr (case map_of kvs k of None \<Rightarrow> dflt | Some v \<Rightarrow> v)
      | _ \<Rightarrow> Inl AttributeError)"

definition py_first :: "json \<Rightarrow> error + json" where
  \<comment> \<open>\<^verbatim>\<open>obj[0]\<close>\<close>
  "py_first obj =
     (case obj of
        JArr xs \<Rightarrow> (case xs of [] \<Rightarrow> Inl IndexError | x # _ \<Rightarrow> Inr x)
      | JStr s \<Rightarrow> (case s of [] \<Rightarrow> Inl IndexError | c # _ \<Rightarrow> Inr (JStr [c]))
      | JObj kvs \<Rightarrow> Inl KeyError
      | _ \<Rightarrow> Inl TypeError)"

definition nested_get :: "json \<Rightarrow> string \<Rightarrow> string \<Rightarrow> error + json" where
  \<comment> \<open>\<^verbatim>\<open>data.get(k1, {}).get(k2)\<close>\<close>
  "nested_get data k1 k2 =
     (case py_get data k1 (JObj []) of Inl e \<Rightarrow> Inl e | Inr m \<Rightarrow> py_get m k2 JNull)"

definition weather_get :: "json \<Rightarrow> string \<Rightarrow> error + json" where
  \<comment> \<open>\<^verbatim>\<open>data.get('weather', [{}])[0].get(k)\<close>\<close>
  "weather_get data k =
     (case py_get data ''weather'' (JArr [JObj []]) of
        Inl e \<Rightarrow> Inl e
      | Inr w \<Rightarrow> (case py_first w of Inl e \<Rightarrow> Inl e | Inr x \<Rightarrow> py_get x k JNull))"

fun build_record :: "(string \<times> (error + json)) list \<Rightarrow> error + (string \<times> json) list" where
  \<comment> \<open>the dict literal: the values are evaluated in order, the first to raise ends it\<close>
  "build_record [] = Inr []"
| "build_record ((k, Inl e) # rest) = Inl e"
| "build_record ((k, Inr v) # rest) =
     (case build_record rest of Inl e \<Rightarrow> Inl e | Inr r \<Rightarrow> Inr ((k, v) # r))"

definition dict_get :: "(string \<times> json) list \<Rightarrow> string \<Rightarrow> json" where
  \<comment> \<open>\<^verbatim>\<open>d.get(key)\<close> on a dict\<close>
  "dict_get d k = (case map_of d k of None \<Rightarrow> JNull | Some v \<Rightarrow> v)"

fun cell_of_json :: "json \<Rightarrow> cell" where
  "cell_of_json JNull = CNull"
| "cell_of_json (JBool b) = CBool b"
| "cell_of_json (JNum x) = CNum x"
| "cell_of_json (JStr s) = CStr s"
| "cell_of_json (JArr xs) = CObj (JArr xs)"
| "cell_of_json (JObj kvs) = CObj (JObj kvs)"

definition weather_numeric_cols :: "string list" where
  "weather_numeric_cols =
     [''latitude'', ''longitude'', ''temperature_celsius'', ''feels_like_celsius'',
      ''pressure_hpa'', ''humidity_percent'', ''wind_speed_mps'', ''wind_deg'',
      ''cloudiness_percent'']"

definition weather_record ::
  "string \<Rightarrow> json \<Rightarrow> (string \<times> json) list \<Rightarrow> error + (string \<times> json) list" where
  \<comment> \<open>\<open>now\<close> is \<^verbatim>\<open>datetime.datetime.now(datetime.timezone.utc).isoformat()\<close>, read
      when the record is built\<close>
  "weather_record now data location_coords =
     build_record
       [(''latitude'', Inr (dict_get location_coords ''lat'')),
        (''longitude'', Inr (dict_get location_coords ''lon'')),
        (''timestamp_utc'', Inr (JStr now)),
        (''temperature_celsius'', nested_get data ''main'' ''temp''),
        (''feels_like_celsius'', nested_get data ''main'' ''feels_like''),
        (''pressure_hpa'', nested_get data ''main'' ''pressure''),
        (''humidity_percent'', nested_get data ''main'' ''humidity''),
        (''wind_speed_mps'', nested_get data ''wind'' ''speed''),
        (''wind_deg'', nested_get data ''wind'' ''deg''),
        (''weather_description'', weather_get data ''description''),
        (''weather_icon'', weather_get data ''icon''),
        (''cloudiness_percent'', nested_get data ''clouds'' ''all''),
        (''city_name'', py_get data ''name'' JNull)]"

definition parse_weather_response_to_dataframe ::
  "library \<Rightarrow> string \<Rightarrow> string \<Rightarrow> (string \<times> json) list \<Rightarrow> dataframe" where
  "parse_weather_response_to_dataframe L now json_data location_coords =
     (if json_data = [] then empty_frame
      else
        (case json_loads L json_data of
           None \<Rightarrow> empty_frame
         | Some data \<Rightarrow>
             (case weather_record now data location_coords of
                Inl e \<Rightarrow> empty_frame
              | Inr weather_row \<Rightarrow>
                  coerce_columns L weather_numeric_cols
                    (frame_of_records [map (\<lambda>(k, v). (k, cell_of_json v)) weather_row]))))"

section \<open>The store loader (load_duckdb.py) and the orchestrator (main.py)\<close>

text \<open>
  The database file: its tables, whether \<^verbatim>\<open>duckdb.connect\<close> and the
  \<^verbatim>\<open>CREATE OR REPLACE TABLE\<close> statement succeed, and a count of the connections
  opened so far. A call returns what it returns to its caller (\<open>Inr ()\<close> for a normal
  return, \<open>Inl e\<close> for an exception that leaves the function), the database, and the
  lines it printed, without the values that the source formats into them.
\<close>

record database =
  tables :: "(string \<times> dataframe) list"
  available :: bool
  writable :: bool
  connections :: nat

type_synonym 'a run = "(error + unit) \<times> 'a \<times> string list"

definition load_transformed_data_to_duckdb ::
  "dataframe \<Rightarrow> string \<Rightarrow> database \<Rightarrow> database run" where
  "load_transformed_data_to_duckdb df table_name db =
     (if frame_empty df then
        (Inr (), db, [''No data to load into DuckDB. Skipping load phase.''])
      else if \<not> available db then
        (Inr (), db\<lparr>connections := connections db + 1\<rparr>,
         [''Error loading data to DuckDB'', ''Load Phase (DuckDB) Complete''])
      else if \<not> writable db then
        (Inr (), db\<lparr>connections := connections db + 1\<rparr>,
         [''Connected to DuckDB database'', ''Error loading data to DuckDB'',
          ''DuckDB connection closed.'', ''Load Phase (DuckDB) Complete''])
      else
        (Inr (),
         db\<lparr>tables := AList.update table_name df (tables db),
            connections := connections db + 1\<rparr>,
         [''Connected to DuckDB database'', ''Successfully loaded'',
          ''DuckDB connection closed.'', ''Load Phase (DuckDB) Complete'']))"

record config =
  TOMTOM_API_KEY :: "string option"
  ROUTE_POINTS_EXAMPLE :: "string list"

text \<open>
  The orchestrator. The extraction phase talks to the network and writes the batch files;
  it enters as the function \<open>extract_traffic_data_for_areas\<close>, from the points to
  the paths it saved, and the files as \<open>read_parquet\<close>. Of the lines printed, the
  model keeps those that tell how a run ended.
\<close>

definition main ::
  "config \<Rightarrow> (string list \<Rightarrow> string list) \<Rightarrow> (string \<Rightarrow> dataframe option)
     \<Rightarrow> database \<Rightarrow> database run" where
  "main CONFIG extract_traffic_data_for_areas read_parquet db =
     (if TOMTOM_API_KEY CONFIG = None \<or> TOMTOM_API_KEY CONFIG = Some [] then
        (Inl ValueError, db, [])
      else if ROUTE_POINTS_EXAMPLE CONFIG = [] then
        (Inr (), db, [''Aborting pipeline.''])
      else
        (let extracted_file_paths =
               extract_traffic_data_for_areas (ROUTE_POINTS_EXAMPLE CONFIG)
         in if extracted_file_paths = [] then
              (Inr (), db, [''Extraction Phase failed or produced no files.''])
            else
              (case transform_traffic_data read_parquet extracted_file_paths of
                 Inl e \<Rightarrow> (Inl e, db, [])
               | Inr (transformed_data_df, calculated_averages_dict, estimated_time_sec) \<Rightarrow>
                   if frame_empty transformed_data_df then
                     (Inr (), db,
                      [''Transformation Phase resulted in no data.'', ''ETL Pipeline Finished''])
                   else
                     (let (r, db', out) =
                            load_transformed_data_to_duckdb transformed_data_df ''traffic_data'' db
                      in case r of
                           Inl e \<Rightarrow> (Inl e, db', out)
                         | Inr u \<Rightarrow> (Inr (), db', out @ [''ETL Pipeline Finished''])))))"

section \<open>Notions used to state the properties\<close>

definition readable :: "(string \<Rightarrow> dataframe option) \<Rightarrow> string \<Rightarrow> bool" where
  "readable read_parquet path = (read_parquet path \<noteq> None)"

definition key_of :: "dataframe \<Rightarrow> string \<Rightarrow> string" where
  \<comment> \<open>the key that the averaging loop writes for a metric\<close>
  "key_of df col = (if col \<in> set (columns df) then avg_key col else ''average_'' @ col)"

definition opt_cell :: "real option \<Rightarrow> cell" where
  \<comment> \<open>a cell of a float column: a number or null\<close>
  "opt_cell v = (case v of None \<Rightarrow> CNull | Some x \<Rightarrow> CNum x)"

definition ends_with :: "string \<Rightarrow> string \<Rightarrow> bool" where
  "ends_with s suffix =
     (length suffix \<le> length s \<and> drop (length s - length suffix) s = suffix)"

definition key_encodes_unit :: "string \<Rightarrow> bool" where
  \<comment> \<open>the key names km/h, seconds per segment, or unitless\<close>
  "key_encodes_unit k =
     (ends_with k ''_kmph'' \<or> ends_with k ''_seconds_per_segment'' \<or> ends_with k ''_unitless'')"

definition null_field :: "string \<Rightarrow> cell" where
  \<comment> \<open>what the traffic parser stores for a scalar tag that the document lacks\<close>
  "null_field t = (if t = ''roadClosure'' then CBool False else CNull)"

definition float_accepts :: "library \<Rightarrow> element option \<Rightarrow> bool" where
  \<comment> \<open>the latitude or longitude element is missing, has no text, or has a text that
      \<^verbatim>\<open>float()\<close> accepts\<close>
  "float_accepts L el =
     (case el of
        None \<Rightarrow> True
      | Some e \<Rightarrow> (case elem_text e of None \<Rightarrow> True | Some s \<Rightarrow> s = [] \<or> py_float L s \<noteq> None))"

definition coordinates_parse :: "library \<Rightarrow> element \<Rightarrow> bool" where
  "coordinates_parse L root_elem =
     list_all (\<lambda>ce. float_accepts L (element_find ce ''latitude'')
                   \<and> float_accepts L (element_find ce ''longitude''))
       (coordinate_entries root_elem)"

definition given_value :: "library \<Rightarrow> element option \<Rightarrow> real option" where
  \<comment> \<open>the value an entry supplies: none when the element or its text is missing\<close>
  "given_value L el =
     (case el of
        None \<Rightarrow> None
      | Some e \<Rightarrow> (case elem_text e of None \<Rightarrow> None | Some s \<Rightarrow> if s = [] then None else py_float L s))"

definition lacks_value :: "element option \<Rightarrow> bool" where
  \<comment> \<open>the element is missing or has no text\<close>
  "lacks_value el =
     (case el of
        None \<Rightarrow> True
      | Some e \<Rightarrow> (case elem_text e of None \<Rightarrow> True | Some s \<Rightarrow> s = []))"

definition entry_pair :: "library \<Rightarrow> element \<Rightarrow> (real \<times> real) option" where
  \<comment> \<open>the pair of an entry that supplies both a latitude and a longitude\<close>
  "entry_pair L ce =
     (case (given_value L (element_find ce ''latitude''),
            given_value L (element_find ce ''longitude'')) of
        (Some la, Some lo) \<Rightarrow> Some (la, lo)
      | _ \<Rightarrow> None)"

definition member2 :: "json \<Rightarrow> string \<Rightarrow> string \<Rightarrow> json" where
  \<comment> \<open>the member \<open>k2\<close> of the object member \<open>k1\<close> of a document; null when either is
      missing\<close>
  "member2 data k1 k2 =
     (case data of
        JObj kvs \<Rightarrow> (case map_of kvs k1 of Some (JObj m) \<Rightarrow> dict_get m k2 | _ \<Rightarrow> JNull)
      | _ \<Rightarrow> JNull)"

definition first_weather :: "json \<Rightarrow> string \<Rightarrow> json" where
  \<comment> \<open>the member \<open>k\<close> of the first element of the list \<^verbatim>\<open>weather\<close>; null when missing\<close>
  "first_weather data k =
     (case data of
        JObj kvs \<Rightarrow>
          (case map_of kvs ''weather'' of
             Some (JArr (JObj m # rest)) \<Rightarrow> dict_get m k
           | _ \<Rightarrow> JNull)
      | _ \<Rightarrow> JNull)"

definition response_field :: "json \<Rightarrow> string \<Rightarrow> json" where
  \<comment> \<open>the place in the response that each column of the weather record is read from\<close>
  "response_field data col =
     (if col = ''temperature_celsius'' then member2 data ''main'' ''temp''
      else if col = ''feels_like_celsius'' then member2 data ''main'' ''feels_like''
      else if col = ''pressure_hpa'' then member2 data ''main'' ''pressure''
      else if col = ''humidity_percent'' then member2 data ''main'' ''humidity''
      else if col = ''wind_speed_mps'' then member2 data ''wind'' ''speed''
      else if col = ''wind_deg'' then member2 data ''wind'' ''deg''
      else if col = ''weather_description'' then first_weather data ''description''
      else if col = ''weather_icon'' then first_weather data ''icon''
      else if col = ''cloudiness_percent'' then member2 data ''clouds'' ''all''
      else if col = ''city_name'' then (case data of JObj kvs \<Rightarrow> dict_get kvs ''name'' | _ \<Rightarrow> JNull)
      else JNull)"

definition response_columns :: "string list" where
  "response_columns =
     [''temperature_celsius'', ''feels_like_celsius'', ''pressure_hpa'', ''humidity_percent'',
      ''wind_speed_mps'', ''wind_deg'', ''weather_description'', ''weather_icon'',
      ''cloudiness_percent'', ''city_name'']"

definition object_or_absent :: "(string \<times> json) list \<Rightarrow> string \<Rightarrow> bool" where
  "object_or_absent kvs k =
     (case map_of kvs k of None \<Rightarrow> True | Some (JObj m) \<Rightarrow> True | Some _ \<Rightarrow> False)"

definition weather_list_ok :: "(string \<times> json) list \<Rightarrow> bool" where
  \<comment> \<open>\<^verbatim>\<open>weather\<close> is missing, or a list that starts with an object\<close>
  "weather_list_ok kvs =
     (case map_of kvs ''weather'' of
        None \<Rightarrow> True
      | Some (JArr (JObj m # rest)) \<Rightarrow> True
      | Some _ \<Rightarrow> False)"

definition expected_shape :: "json \<Rightarrow> bool" where
  "expected_shape data =
     (case data of
        JObj kvs \<Rightarrow>
          object_or_absent kvs ''main'' \<and> object_or_absent kvs ''wind''
          \<and> object_or_absent kvs ''clouds'' \<and> weather_list_ok kvs
      | _ \<Rightarrow> False)"

definition stored_cell :: "library \<Rightarrow> string \<Rightarrow> json \<Rightarrow> cell" where
  \<comment> \<open>the cell that the weather frame holds for a value: coerced in a numeric column\<close>
  "stored_cell L col v =
     (if col \<in> set weather_numeric_cols then to_numeric_coerce L (cell_of_json v)
      else cell_of_json v)"

section \<open>Example inputs\<close>

text \<open>
  Four batch files of one row each; the second cannot be read.
\<close>

definition example_files :: "string \<Rightarrow> dataframe option" where
  "example_files path =
     (if path = ''p1.parquet'' then
        Some \<lparr>columns = [''currentSpeed'', ''freeFlowSpeed''],
              rows = [[(''currentSpeed'', CNum 30), (''freeFlowSpeed'', CNum 50)]]\<rparr>
      else if path = ''p3.parquet'' then
        Some \<lparr>columns = [''currentSpeed'', ''freeFlowSpeed''],
              rows = [[(''currentSpeed'', CNum 42), (''freeFlowSpeed'', CNull)]]\<rparr>
      else if path = ''p4.parquet'' then
        Some \<lparr>columns = [''currentSpeed'', ''freeFlowSpeed''],
              rows = [[(''currentSpeed'', CNull), (''freeFlowSpeed'', CNum 70)]]\<rparr>
      else None)"

text \<open>
  Traffic responses: a segment with two coordinate entries, the second without a
  longitude; the same without that entry; the same with an entry that has no latitude and
  a longitude that is not a number; the same without \<^verbatim>\<open>roadClosure\<close>; the same without
  \<^verbatim>\<open>currentSpeed\<close>; a segment whose two entries have both values; a segment with a
  latitude that is not a number; a segment with a speed that is not a number; a
  well-formed document of another shape. The example
  decoder maps each text to its tree and rejects every other text.
\<close>

definition frc_element :: element where
  "frc_element = Element ''frc'' (Some ''FRC2'') []"

definition speed_element :: element where
  "speed_element = Element ''currentSpeed'' (Some ''36'') []"

definition closure_element :: element where
  "closure_element = Element ''roadClosure'' (Some ''True'') []"

definition full_entry :: element where
  "full_entry =
     Element ''coordinate'' None
       [Element ''latitude'' (Some ''10.5'') [], Element ''longitude'' (Some ''106.5'') []]"

definition half_entry :: element where
  "half_entry = Element ''coordinate'' None [Element ''latitude'' (Some ''10.5'') []]"

definition bad_entry :: element where
  "bad_entry =
     Element ''coordinate'' None
       [Element ''latitude'' (Some ''abc'') [], Element ''longitude'' (Some ''106.5'') []]"

definition longitude_only_entry :: element where
  "longitude_only_entry = Element ''coordinate'' None [Element ''longitude'' (Some ''abc'') []]"

definition segment_document :: element where
  "segment_document =
     Element ''flowSegmentData'' None
       [frc_element, speed_element, closure_element,
        Element ''coordinates'' None [full_entry, half_entry]]"

definition segment_xml :: string where
  "segment_xml =
     ''<flowSegmentData><frc>FRC2</frc><currentSpeed>36</currentSpeed>'' @
     ''<roadClosure>True</roadClosure><coordinates>'' @
     ''<coordinate><latitude>10.5</latitude><longitude>106.5</longitude></coordinate>'' @
     ''<coordinate><latitude>10.5</latitude></coordinate></coordinates></flowSegmentData>''"

definition one_entry_document :: element where
  "one_entry_document =
     Element ''flowSegmentData'' None
       [frc_element, speed_element, closure_element,
        Element ''coordinates'' None [full_entry]]"

definition one_entry_xml :: string where
  "one_entry_xml =
     ''<flowSegmentData><frc>FRC2</frc><currentSpeed>36</currentSpeed>'' @
     ''<roadClosure>True</roadClosure><coordinates>'' @
     ''<coordinate><latitude>10.5</latitude><longitude>106.5</longitude></coordinate>'' @
     ''</coordinates></flowSegmentData>''"

definition longitude_only_document :: element where
  "longitude_only_document =
     Element ''flowSegmentData'' None
       [frc_element, speed_element, closure_element,
        Element ''coordinates'' None [full_entry, longitude_only_entry]]"

definition longitude_only_xml :: string where
  "longitude_only_xml =
     ''<flowSegmentData><frc>FRC2</frc><currentSpeed>36</currentSpeed>'' @
     ''<roadClosure>True</roadClosure><coordinates>'' @
     ''<coordinate><latitude>10.5</latitude><longitude>106.5</longitude></coordinate>'' @
     ''<coordinate><longitude>abc</longitude></coordinate></coordinates></flowSegmentData>''"

definition no_closure_document :: element where
  "no_closure_document =
     Element ''flowSegmentData'' None
       [frc_element, speed_element, Element ''coordinates'' None [full_entry, half_entry]]"

definition no_closure_xml :: string where
  "no_closure_xml =
     ''<flowSegmentData><frc>FRC2</frc><currentSpeed>36</currentSpeed><coordinates>'' @
     ''<coordinate><latitude>10.5</latitude><longitude>106.5</longitude></coordinate>'' @
     ''<coordinate><latitude>10.5</latitude></coordinate></coordinates></flowSegmentData>''"

definition no_speed_document :: element where
  "no_speed_document =
     Element ''flowSegmentData'' None
       [frc_element, closure_element, Element ''coordinates'' None [full_entry, half_entry]]"

definition no_speed_xml :: string where
  "no_speed_xml =
     ''<flowSegmentData><frc>FRC2</frc><roadClosure>True</roadClosure><coordinates>'' @
     ''<coordinate><latitude>10.5</latitude><longitude>106.5</longitude></coordinate>'' @
     ''<coordinate><latitude>10.5</latitude></coordinate></coordinates></flowSegmentData>''"

definition two_entries_document :: element where
  "two_entries_document =
     Element ''flowSegmentData'' None [Element ''coordinates'' None [full_entry, full_entry]]"

definition two_entries_xml :: string where
  "two_entries_xml =
     ''<flowSegmentData><coordinates>'' @
     ''<coordinate><latitude>10.5</latitude><longitude>106.5</longitude></coordinate>'' @
     ''<coordinate><latitude>10.5</latitude><longitude>106.5</longitude></coordinate>'' @
     ''</coordinates></flowSegmentData>''"

definition bad_latitude_document :: element where
  "bad_latitude_document =
     Element ''flowSegmentData'' None
       [frc_element, speed_element, Element ''coordinates'' None [full_entry, bad_entry]]"

definition bad_latitude_xml :: string where
  "bad_latitude_xml =
     ''<flowSegmentData><frc>FRC2</frc><currentSpeed>36</currentSpeed><coordinates>'' @
     ''<coordinate><latitude>10.5</latitude><longitude>106.5</longitude></coordinate>'' @
     ''<coordinate><latitude>abc</latitude><longitude>106.5</longitude></coordinate>'' @
     ''</coordinates></flowSegmentData>''"

definition bad_speed_document :: element where
  "bad_speed_document =
     Element ''flowSegmentData'' None [frc_element, Element ''currentSpeed'' (Some ''fast'') []]"

definition bad_speed_xml :: string where
  "bad_speed_xml =
     ''<flowSegmentData><frc>FRC2</frc><currentSpeed>fast</currentSpeed></flowSegmentData>''"

definition other_document :: element where
  "other_document = Element ''html'' None [Element ''body'' (Some ''Service unavailable'') []]"

definition other_xml :: string where
  "other_xml = ''<html><body>Service unavailable</body></html>''"

definition example_fromstring :: "string \<Rightarrow> element option" where
  "example_fromstring s =
     (if s = segment_xml then Some segment_document
      else if s = one_entry_xml then Some one_entry_document
      else if s = longitude_only_xml then Some longitude_only_document
      else if s = no_closure_xml then Some no_closure_document
      else if s = no_speed_xml then Some no_speed_document
      else if s = two_entries_xml then Some two_entries_document
      else if s = bad_latitude_xml then Some bad_latitude_document
      else if s = bad_speed_xml then Some bad_speed_document
      else if s = other_xml then Some other_document
      else None)"

definition example_float :: "string \<Rightarrow> real option" where
  "example_float s =
     (if s = ''10.5'' then Some (21 / 2)
      else if s = ''106.5'' then Some (213 / 2)
      else if s = ''36'' then Some 36
      else if s = ''30'' then Some 30
      else None)"

text \<open>
  Weather responses: a full one; the same without \<^verbatim>\<open>main.temp\<close>; one whose
  \<^verbatim>\<open>weather\<close> list is empty; one whose top level is a list.
\<close>

definition weather_json :: string where
  \<open>weather_json =
     ''{"main": {"temp": 30, "humidity": 70}, "wind": {"speed": 3}, '' @
     ''"weather": [{"description": "clear sky"}], "name": "Saigon"}''\<close>

definition weather_document :: json where
  "weather_document =
     JObj [(''main'', JObj [(''temp'', JNum 30), (''humidity'', JNum 70)]),
           (''wind'', JObj [(''speed'', JNum 3)]),
           (''weather'', JArr [JObj [(''description'', JStr ''clear sky'')]]),
           (''name'', JStr ''Saigon'')]"

definition no_temp_json :: string where
  \<open>no_temp_json =
     ''{"main": {"humidity": 70}, "wind": {"speed": 3}, '' @
     ''"weather": [{"description": "clear sky"}], "name": "Saigon"}''\<close>

definition no_temp_document :: json where
  "no_temp_document =
     JObj [(''main'', JObj [(''humidity'', JNum 70)]),
           (''wind'', JObj [(''speed'', JNum 3)]),
           (''weather'', JArr [JObj [(''description'', JStr ''clear sky'')]]),
           (''name'', JStr ''Saigon'')]"

definition empty_weather_json :: string where
  \<open>empty_weather_json = ''{"main": {"temp": 30}, "weather": [], "name": "Saigon"}''\<close>

definition empty_weather_document :: json where
  "empty_weather_document =
     JObj [(''main'', JObj [(''temp'', JNum 30)]), (''weather'', JArr []),
           (''name'', JStr ''Saigon'')]"

definition list_json :: string where
  "list_json = ''[1, 2]''"

definition example_loads :: "string \<Rightarrow> json option" where
  "example_loads s =
     (if s = weather_json then Some weather_document
      else if s = no_temp_json then Some no_temp_document
      else if s = empty_weather_json then Some empty_weather_document
      else if s = list_json then Some (JArr [JNum 1, JNum 2])
      else None)"

definition example_library :: library where
  "example_library =
     \<lparr>ET_fromstring = example_fromstring, py_float = example_float,
      pd_to_numeric = example_float, json_loads = example_loads\<rparr>"

definition example_coords :: "(string \<times> json) list" where
  "example_coords = [(''lat'', JNum (1079187 / 100000)), (''lon'', JNum (10668831 / 100000))]"

definition example_now :: string where
  "example_now = ''2026-11-04T07:23:00+00:00''"

text \<open>The result of the transform on the first, third and fourth file.\<close>

definition three_rows :: dataframe where
  "three_rows =
     \<lparr>columns = [''currentSpeed'', ''freeFlowSpeed''],
      rows = [[(''currentSpeed'', CNum 30), (''freeFlowSpeed'', CNum 50)],
              [(''currentSpeed'', CNum 42), (''freeFlowSpeed'', CNull)],
              [(''currentSpeed'', CNull), (''freeFlowSpeed'', CNum 70)]]\<rparr>"

definition three_rows_averages :: averages where
  "three_rows_averages =
     [(''average_currentSpeed_kmph'', PyFloat 36),
      (''average_freeFlowSpeed_kmph'', PyFloat 60),
      (''average_currentTravelTime'', PyNone),
      (''average_freeFlowTravelTime'', PyNone),
      (''average_confidence'', PyNone)]"

text \<open>
  A store that works and one that cannot be reached, a one-row table, and a configuration
  whose extraction saves the first, third and fourth example file.
\<close>

definition empty_store :: database where
  "empty_store = \<lparr>tables = [], available = True, writable = True, connections = 0\<rparr>"

definition unavailable_store :: database where
  "unavailable_store = \<lparr>tables = [], available = False, writable = True, connections = 0\<rparr>"

definition one_row :: dataframe where
  "one_row =
     \<lparr>columns = [''currentSpeed'', ''freeFlowSpeed''],
      rows = [[(''currentSpeed'', CNum 30), (''freeFlowSpeed'', CNum 50)]]\<rparr>"

definition example_config :: config where
  "example_config =
     \<lparr>TOMTOM_API_KEY = Some ''key'',
      ROUTE_POINTS_EXAMPLE =
        [''10.79187,106.68831'', ''10.78792,106.70215'', ''10.79096,106.71560'']\<rparr>"

definition example_extract :: "string list \<Rightarrow> string list" where
  "example_extract points =
     (if points = [] then [] else [''p1.parquet'', ''p3.parquet'', ''p4.parquet''])"

section \<open>The travel-time estimate\<close>

subsection \<open>The rounding\<close>

lemmas float_eval =
  float_result_def spacing_def binade_def pow2_def nearest_even_def compute_floorlog

lemma pow2_nat: "pow2 (int k) = 2 ^ k"
  by (simp add: pow2_def)

lemma pow2_neg: "0 < k \<Longrightarrow> pow2 (- int k) = 1 / 2 ^ k"
  by (simp add: pow2_def)

text \<open>The binade of a positive number is the power of two at or below it.\<close>

lemma binade_bounds:
  assumes "0 < x"
  shows "pow2 (binade x) \<le> x \<and> x < pow2 (binade x + 1)"
proof (cases "1 \<le> x")
  case True
  define n where "n = nat \<lfloor>x\<rfloor>"
  define k where "k = floorlog 2 n"
  from True have n: "1 \<le> n" "real n \<le> x" "x < real n + 1"
    by (simp_all add: n_def le_nat_floor)
  then have b: "2 ^ (k - 1) \<le> n" "n < 2 ^ k"
    using floorlog_bounds [of n 2] by (simp_all add: k_def)
  from n b have k: "1 \<le> k"
    by (cases k) auto
  from True have e: "binade x = int (k - 1)"
    using k by (simp add: binade_def n_def k_def)
  have "pow2 (binade x) \<le> x"
  proof -
    have "pow2 (binade x) = 2 ^ (k - 1)"
      by (simp add: e pow2_nat)
    also have "\<dots> \<le> real n"
      using b(1) by (metis of_nat_le_iff of_nat_numeral of_nat_power)
    finally show ?thesis using n(2) by simp
  qed
  moreover have "x < pow2 (binade x + 1)"
  proof -
    from b(2) have "n + 1 \<le> 2 ^ k" by simp
    then have "real n + 1 \<le> 2 ^ k"
      by (metis of_nat_le_iff of_nat_numeral of_nat_power of_nat_Suc Suc_eq_plus1 add.commute)
    moreover have "pow2 (binade x + 1) = 2 ^ k"
      using k pow2_nat [of k] by (simp add: e of_nat_diff)
    ultimately show ?thesis using n(3) by simp
  qed
  ultimately show ?thesis ..
next
  case False
  define y where "y = 1 / x"
  define n where "n = nat \<lceil>y\<rceil> - 1"
  define k where "k = floorlog 2 n"
  from False assms have y: "1 < y" "x = 1 / y"
    by (simp_all add: y_def)
  then have c: "2 \<le> \<lceil>y\<rceil>"
    by linarith
  then have n: "1 \<le> n" "real n < y" "y \<le> real n + 1"
    by (simp_all add: n_def) linarith+
  then have b: "2 ^ (k - 1) \<le> n" "n < 2 ^ k"
    using floorlog_bounds [of n 2] by (simp_all add: k_def)
  from n b have k: "1 \<le> k"
    by (cases k) auto
  from False have e: "binade x = - int k"
    by (simp add: binade_def n_def k_def y_def)
  have "pow2 (binade x) \<le> x"
  proof -
    from b(2) have "n + 1 \<le> 2 ^ k" by simp
    then have "real n + 1 \<le> 2 ^ k"
      by (metis of_nat_le_iff of_nat_numeral of_nat_power of_nat_Suc Suc_eq_plus1 add.commute)
    with n(3) have "y \<le> 2 ^ k" by simp
    with y have "1 / 2 ^ k \<le> x"
      by (simp add: frac_le)
    then show ?thesis
      using k by (simp add: e pow2_neg)
  qed
  moreover have "x < pow2 (binade x + 1)"
  proof (cases "k = 1")
    case True
    with False show ?thesis
      by (simp add: e pow2_def)
  next
    case k1: False
    with k have k2: "0 < k - 1" by simp
    have "(2::real) ^ (k - 1) \<le> real n"
      using b(1) by (metis of_nat_le_iff of_nat_numeral of_nat_power)
    with n(2) have "2 ^ (k - 1) < y" by linarith
    with y have "x < 1 / 2 ^ (k - 1)"
      by (simp add: frac_less2)
    moreover have "binade x + 1 = - int (k - 1)"
      using k by (simp add: e of_nat_diff)
    ultimately show ?thesis
      using pow2_neg [OF k2] by simp
  qed
  ultimately show ?thesis ..
qed

text \<open>
  So the binade is the only such power, and below the least normal double the spacing is
  that of the subnormal doubles.
\<close>

lemma pow2_pos: "0 < pow2 e"
  by (simp add: pow2_def)

lemma pow2_powr: "pow2 e = 2 powr (real_of_int e)"
proof (cases "0 \<le> e")
  case True
  then have "real_of_int e = real (nat e)" by simp
  then have "2 powr (real_of_int e) = 2 ^ nat e"
    by (simp only: powr_realpow zero_less_numeral)
  with True show ?thesis
    by (simp add: pow2_def)
next
  case False
  then have "- real_of_int e = real (nat (- e))" by simp
  then have "2 powr (- real_of_int e) = 2 ^ nat (- e)"
    by (simp only: powr_realpow zero_less_numeral)
  moreover have "2 powr (real_of_int e) = 1 / 2 powr (- real_of_int e)"
    by (simp add: powr_minus_divide)
  ultimately show ?thesis
    using False by (simp add: pow2_def)
qed

lemma binade_eq:
  assumes "pow2 e \<le> x" and "x < pow2 (e + 1)"
  shows "binade x = e"
proof -
  have "0 < x"
    using assms(1) by (rule less_le_trans [OF _ _, rotated]) (simp add: pow2_def)
  from binade_bounds [OF this] assms
  have "pow2 (binade x) < pow2 (e + 1)" "pow2 e < pow2 (binade x + 1)"
    by linarith+
  then have "binade x < e + 1" "e < binade x + 1"
    by (simp_all add: pow2_powr)
  then show ?thesis by simp
qed

lemma spacing_subnormal:
  assumes "x \<noteq> 0" and "\<bar>x\<bar> < pow2 (- 1022)"
  shows "spacing x = pow2 (- 1074)"
proof -
  have "0 < \<bar>x\<bar>" using assms(1) by simp
  from binade_bounds [OF this] assms(2) have "pow2 (binade \<bar>x\<bar>) < pow2 (- 1022)"
    by linarith
  then have "binade \<bar>x\<bar> < - 1022"
    by (simp add: pow2_powr)
  then show ?thesis
    by (simp add: spacing_def max_def)
qed

text \<open>The least positive double times 1000 is exact; divided by 3600 it rounds to zero.\<close>

lemma tiny_product: "float_result (pow2 (- 1074) * 1000) = PyFloat (1000 * pow2 (- 1074))"
proof -
  have "spacing (pow2 (- 1074) * 1000) = pow2 (- 1074)"
    by (rule spacing_subnormal) (simp_all add: pow2_def)
  then show ?thesis
    by (simp add: float_result_def Let_def nearest_even_def) (simp add: pow2_def)
qed

lemma tiny_quotient: "float_result (5 * pow2 (- 1074) / 18) = PyFloat 0"
proof -
  have "spacing (5 * pow2 (- 1074) / 18) = pow2 (- 1074)"
    by (rule spacing_subnormal) (simp_all add: pow2_def)
  then show ?thesis
    by (simp add: float_result_def Let_def nearest_even_def) (simp add: pow2_def)
qed

text \<open>A finite result is within half a spacing of the exact value.\<close>

lemma nearest_even_error: "\<bar>real_of_int (nearest_even y) - y\<bar> \<le> 1 / 2"
  unfolding nearest_even_def Let_def by (auto split: if_splits)

lemma float_result_error:
  assumes "float_result x = PyFloat y"
  shows "\<bar>y - x\<bar> \<le> spacing x / 2"
proof (cases "x = 0")
  case True
  with assms show ?thesis
    by (simp add: float_result_def spacing_def less_imp_le [OF pow2_pos])
next
  case False
  have u: "0 < spacing x"
    by (simp add: spacing_def pow2_pos)
  from False assms have y: "y = real_of_int (nearest_even (x / spacing x)) * spacing x"
    by (simp add: float_result_def Let_def split: if_splits)
  have "y - x = (real_of_int (nearest_even (x / spacing x)) - x / spacing x) * spacing x"
    using u by (simp add: y left_diff_distrib)
  then have "\<bar>y - x\<bar> = \<bar>real_of_int (nearest_even (x / spacing x)) - x / spacing x\<bar> * spacing x"
    using u by (simp add: abs_mult)
  also have "\<dots> \<le> 1 / 2 * spacing x"
    using nearest_even_error [of "x / spacing x"] u by (intro mult_right_mono) simp_all
  finally show ?thesis by simp
qed

subsection \<open>The estimate\<close>

lemmas estimate_eval =
  estimate_travel_time_def float_mul_def float_div_def number_div_def float_ge_zero_def
  float_gt_zero_def

lemma estimate_at_36:
  "map_of av ''average_currentSpeed_kmph'' = Some (PyFloat 36)
   \<Longrightarrow> estimate_travel_time av 5000 = PyFloat 500"
  by (simp add: estimate_eval float_eval)

lemma transform_estimate:
  "transform_with_distance d read_parquet file_paths = Inr (df, av, est)
   \<Longrightarrow> est = estimate_travel_time av d"
  by (auto simp: transform_with_distance_def Let_def estimate_travel_time_def
      split: if_splits sum.splits)

text \<open>
  Claim C1. Whatever the averages mapping and the route distance \<open>d\<close>, the estimate that
  the transform returns is the float \<open>d / (v * 1000 / 3600)\<close>, each operation rounded as
  Python rounds it, when the entry \<^verbatim>\<open>average_currentSpeed_kmph\<close> is a float \<open>v\<close>
  with \<open>v >= 0\<close>, \<open>0 < d\<close> and a converted speed above zero, and null in every other
  case; the source fixes \<open>d\<close> at 5000. Where the three operations are exact the estimate
  is the real number \<open>d / (v * 1000 / 3600)\<close>: an average of 36 km/h over 5000 m gives
  500 s. An average of 0, a NaN, \<^verbatim>\<open>None\<close> or a missing entry gives null; so does the
  least positive double, whose converted speed rounds to zero; and 7 km/h gives the double
  nearest to 5000 over the double nearest to 7000 / 3600.
\<close>

theorem estimated_travel_time_formula:
  "(transform_with_distance d read_parquet file_paths = Inr (df, av, est) \<longrightarrow>
      est =
        (case map_of av ''average_currentSpeed_kmph'' of
           None \<Rightarrow> PyNone
         | Some v \<Rightarrow>
             if v \<noteq> PyNone \<and> float_ge_zero v \<and> 0 < d
                \<and> float_gt_zero (float_div (float_mul v 1000) 3600)
             then number_div d (float_div (float_mul v 1000) 3600)
             else PyNone))
   \<and> transform_traffic_data = transform_with_distance 5000
   \<and> (0 < v \<and> 0 < d
        \<and> float_result (v * 1000) = PyFloat (v * 1000)
        \<and> float_result (v * 1000 / 3600) = PyFloat (v * 1000 / 3600)
        \<and> float_result (d / (v * 1000 / 3600)) = PyFloat (d / (v * 1000 / 3600)) \<longrightarrow>
        estimate_travel_time [(''average_currentSpeed_kmph'', PyFloat v)] d
          = PyFloat (d / (v * 1000 / 3600)))
   \<and> estimate_travel_time [(''average_currentSpeed_kmph'', PyFloat 36)] 5000 = PyFloat 500
   \<and> (0 < d \<longrightarrow>
        estimate_travel_time [(''average_currentSpeed_kmph'', PyFloat 0)] d = PyNone
        \<and> estimate_travel_time [(''average_currentSpeed_kmph'', PyNone)] d = PyNone
        \<and> estimate_travel_time [(''average_currentSpeed_kmph'', PyNaN)] d = PyNone
        \<and> estimate_travel_time [] d = PyNone)
   \<and> estimate_travel_time [(''average_currentSpeed_kmph'', PyFloat (pow2 (- 1074)))] 5000
       = PyNone
   \<and> estimate_travel_time [(''average_currentSpeed_kmph'', PyFloat 7)] 5000
       = PyFloat (2827315614281143 / 1099511627776)"
proof -
  have general: "est =
        (case map_of av ''average_currentSpeed_kmph'' of
           None \<Rightarrow> PyNone
         | Some v \<Rightarrow>
             if v \<noteq> PyNone \<and> float_ge_zero v \<and> 0 < d
                \<and> float_gt_zero (float_div (float_mul v 1000) 3600)
             then number_div d (float_div (float_mul v 1000) 3600)
             else PyNone)"
    if "transform_with_distance d read_parquet file_paths = Inr (df, av, est)"
    using transform_estimate [OF that]
    by (simp add: estimate_travel_time_def Let_def split: option.splits)
  have fixed: "transform_traffic_data = transform_with_distance 5000"
    by (simp add: transform_traffic_data_def route_distance_meters_def)
  have exact: "estimate_travel_time [(''average_currentSpeed_kmph'', PyFloat v)] d
          = PyFloat (d / (v * 1000 / 3600))"
    if "0 < v \<and> 0 < d
        \<and> float_result (v * 1000) = PyFloat (v * 1000)
        \<and> float_result (v * 1000 / 3600) = PyFloat (v * 1000 / 3600)
        \<and> float_result (d / (v * 1000 / 3600)) = PyFloat (d / (v * 1000 / 3600))"
    using that by (simp add: estimate_eval)
  have thirty_six:
    "estimate_travel_time [(''average_currentSpeed_kmph'', PyFloat 36)] 5000 = PyFloat 500"
    by (simp add: estimate_at_36)
  have null: "estimate_travel_time [(''average_currentSpeed_kmph'', PyFloat 0)] d = PyNone
        \<and> estimate_travel_time [(''average_currentSpeed_kmph'', PyNone)] d = PyNone
        \<and> estimate_travel_time [(''average_currentSpeed_kmph'', PyNaN)] d = PyNone
        \<and> estimate_travel_time [] d = PyNone"
    by (simp add: estimate_eval float_result_def)
  have tiny:
    "estimate_travel_time [(''average_currentSpeed_kmph'', PyFloat (pow2 (- 1074)))] 5000
       = PyNone"
    by (simp add: estimate_eval tiny_product tiny_quotient less_imp_le [OF pow2_pos] pow2_pos)
  have seven: "estimate_travel_time [(''average_currentSpeed_kmph'', PyFloat 7)] 5000
       = PyFloat (2827315614281143 / 1099511627776)"
    by (simp add: estimate_eval float_eval)
  from general fixed exact thirty_six null tiny seven show ?thesis
    by blast
qed

theorem estimated_travel_time_witness:
  "transform_with_distance 5000 example_files [''p1.parquet'', ''p2.parquet'', ''p3.parquet'']
     = Inr (\<lparr>columns = [''currentSpeed'', ''freeFlowSpeed''],
              rows = [[(''currentSpeed'', CNum 30), (''freeFlowSpeed'', CNum 50)],
                      [(''currentSpeed'', CNum 42), (''freeFlowSpeed'', CNull)]]\<rparr>,
            [(''average_currentSpeed_kmph'', PyFloat 36),
             (''average_freeFlowSpeed_kmph'', PyFloat 50),
             (''average_currentTravelTime'', PyNone),
             (''average_freeFlowTravelTime'', PyNone),
             (''average_confidence'', PyNone)],
            PyFloat 500)
   \<and> float_ge_zero (PyFloat 36) \<and> (0::real) < 5000
   \<and> float_div (float_mul (PyFloat 36) 1000) 3600 = PyFloat 10
   \<and> float_gt_zero (PyFloat 10)
   \<and> number_div 5000 (PyFloat 10) = PyFloat 500
   \<and> float_result (36 * 1000) = PyFloat (36 * 1000)
   \<and> float_result (36 * 1000 / 3600) = PyFloat (36 * 1000 / 3600)
   \<and> float_result (5000 / (36 * 1000 / 3600)) = PyFloat (5000 / (36 * 1000 / 3600))
   \<and> PyFloat 500 = PyFloat (5000 / (36 * 1000 / 3600))"
proof -
  have run:
    "transform_with_distance 5000 example_files [''p1.parquet'', ''p2.parquet'', ''p3.parquet'']
     = Inr (\<lparr>columns = [''currentSpeed'', ''freeFlowSpeed''],
              rows = [[(''currentSpeed'', CNum 30), (''freeFlowSpeed'', CNum 50)],
                      [(''currentSpeed'', CNum 42), (''freeFlowSpeed'', CNull)]]\<rparr>,
            [(''average_currentSpeed_kmph'', PyFloat 36),
             (''average_freeFlowSpeed_kmph'', PyFloat 50),
             (''average_currentTravelTime'', PyNone),
             (''average_freeFlowTravelTime'', PyNone),
             (''average_confidence'', PyNone)],
            PyFloat 500)"
    by (simp add: transform_with_distance_def example_files_def pd_concat_def reindex_def
        cell_at_def numeric_cols_for_avg_def series_mean_def column_def avg_key_def
        estimate_at_36)
  have ops: "float_ge_zero (PyFloat 36) \<and> (0::real) < 5000
     \<and> float_div (float_mul (PyFloat 36) 1000) 3600 = PyFloat 10
     \<and> float_gt_zero (PyFloat 10)
     \<and> number_div 5000 (PyFloat 10) = PyFloat 500"
    by (simp add: estimate_eval float_eval)
  have exact: "(0::real) < 36 \<and> (0::real) < 5000
     \<and> float_result (36 * 1000) = PyFloat (36 * 1000)
     \<and> float_result (36 * 1000 / 3600) = PyFloat (36 * 1000 / 3600)
     \<and> float_result (5000 / (36 * 1000 / 3600)) = PyFloat (5000 / (36 * 1000 / 3600))"
    by (simp add: float_eval)
  note t = estimated_travel_time_formula [where d = 5000 and read_parquet = example_files
      and file_paths = "[''p1.parquet'', ''p2.parquet'', ''p3.parquet'']"
      and est = "PyFloat 500" and v = 36]
  from t [THEN conjunct1, THEN mp, OF run]
  have first: "number_div 5000 (float_div (float_mul (PyFloat 36) 1000) 3600) = PyFloat 500"
    by (simp add: ops)
  from t [THEN conjunct2, THEN conjunct2, THEN conjunct1, THEN mp, OF exact]
    t [THEN conjunct2, THEN conjunct2, THEN conjunct2, THEN conjunct1]
  have second: "PyFloat (5000 / (36 * 1000 / 3600)) = PyFloat 500"
    by simp
  from first second run ops exact show ?thesis
    by simp
qed

section \<open>The batch transformer: reading, concatenating, averaging\<close>

lemma read_frames_filter:
  "read_frames rp fps = map (\<lambda>f. the (rp f)) (filter (readable rp) fps)"
  by (induction fps) (auto simp: readable_def split: option.splits)

lemma read_frames_idem:
  "read_frames rp (filter (readable rp) fps) = read_frames rp fps"
  by (simp add: read_frames_filter)

lemma set_ordered_union: "set (ordered_union seen cs) = set seen \<union> set cs"
  by (induction cs arbitrary: seen) auto

lemma cell_at_reindex:
  "cell_at (reindex cols r) c = (if c \<in> set cols then cell_at r c else CNull)"
proof -
  have "map_of (map (\<lambda>c. (c, cell_at r c)) cols) c =
        (if c \<in> set cols then Some (cell_at r c) else None)"
    by (induction cols) auto
  then show ?thesis
    by (simp add: reindex_def cell_at_def [of "map _ _"])
qed

lemma columns_pd_concat:
  "set (columns (pd_concat frames)) = (\<Union>df\<in>set frames. set (columns df))"
  by (simp add: pd_concat_def Let_def set_ordered_union)

lemma rows_pd_concat:
  "rows (pd_concat frames) =
     concat (map (\<lambda>df. map (reindex (columns (pd_concat frames))) (rows df)) frames)"
  by (simp add: pd_concat_def Let_def)

lemma length_rows_pd_concat:
  "length (rows (pd_concat frames)) = sum_list (map (\<lambda>df. length (rows df)) frames)"
  by (simp add: pd_concat_def Let_def length_concat comp_def)

lemma non_null_numbers_opt:
  "non_null_numbers (map opt_cell vs) = Inr (List.map_filter (\<lambda>v. v) vs)"
  by (induction vs) (auto simp: opt_cell_def split: option.splits)

lemma non_null_numbers_ok:
  "(\<forall>c\<in>set cs. numeric_view c \<noteq> Inl TypeError) \<Longrightarrow> \<exists>xs. non_null_numbers cs = Inr xs"
proof (induction cs)
  case Nil
  then show ?case by simp
next
  case (Cons c cs)
  then obtain xs where "non_null_numbers cs = Inr xs" by auto
  moreover from Cons.prems obtain v where "numeric_view c = Inr v"
    by (cases c) auto
  ultimately show ?case by simp
qed

lemma loop_other:
  "averages_loop df cols av = Inr av' \<Longrightarrow> k \<notin> key_of df ` set cols
   \<Longrightarrow> map_of av' k = map_of av k"
proof (induction cols arbitrary: av)
  case Nil
  then show ?case by simp
next
  case (Cons c cs)
  then show ?case
    by (auto simp: key_of_def update_conv' split: if_splits sum.splits)
qed

lemma loop_keys:
  "averages_loop df cols av = Inr av'
   \<Longrightarrow> fst ` set av' = fst ` set av \<union> key_of df ` set cols"
proof (induction cols arbitrary: av)
  case Nil
  then show ?case by simp
next
  case (Cons c cs)
  show ?case
  proof (cases "c \<in> set (columns df)")
    case True
    with Cons.prems obtain m where m: "series_mean (column df c) = Inr m"
      and rest: "averages_loop df cs (AList.update (avg_key c) m av) = Inr av'"
      by (auto split: sum.splits)
    from Cons.IH [OF rest] True show ?thesis
      by (auto simp: dom_update key_of_def)
  next
    case False
    show ?thesis
    proof (cases "''average_'' @ c \<in> fst ` set av")
      case True
      with False Cons.prems have "averages_loop df cs av = Inr av'" by simp
      from Cons.IH [OF this] True False show ?thesis
        by (auto simp: key_of_def)
    next
      case notin: False
      with False Cons.prems
      have "averages_loop df cs (AList.update (''average_'' @ c) PyNone av) = Inr av'" by simp
      from Cons.IH [OF this] False show ?thesis
        by (auto simp: dom_update key_of_def)
    qed
  qed
qed

lemma loop_present:
  "averages_loop df cols av = Inr av' \<Longrightarrow> distinct cols \<Longrightarrow> col \<in> set cols
   \<Longrightarrow> col \<in> set (columns df)
   \<Longrightarrow> \<forall>c\<in>set cols. c \<noteq> col \<longrightarrow> key_of df c \<noteq> avg_key col
   \<Longrightarrow> \<exists>m. series_mean (column df col) = Inr m \<and> map_of av' (avg_key col) = Some m"
proof (induction cols arbitrary: av)
  case Nil
  then show ?case by simp
next
  case (Cons c cs)
  show ?case
  proof (cases "c = col")
    case True
    with Cons.prems obtain m where m: "series_mean (column df col) = Inr m"
      and rest: "averages_loop df cs (AList.update (avg_key col) m av) = Inr av'"
      by (auto split: sum.splits)
    from Cons.prems True have "avg_key col \<notin> key_of df ` set cs" by auto
    from loop_other [OF rest this] m show ?thesis
      by (simp add: update_conv')
  next
    case False
    with Cons.prems have in_cs: "col \<in> set cs" by simp
    from Cons.prems obtain av1 where "averages_loop df cs av1 = Inr av'"
      by (auto split: if_splits sum.splits)
    from Cons.IH [OF this] Cons.prems in_cs show ?thesis by simp
  qed
qed

lemma loop_absent:
  "averages_loop df cols av = Inr av' \<Longrightarrow> distinct cols \<Longrightarrow> col \<in> set cols
   \<Longrightarrow> col \<notin> set (columns df) \<Longrightarrow> ''average_'' @ col \<notin> fst ` set av
   \<Longrightarrow> \<forall>c\<in>set cols. c \<noteq> col \<longrightarrow> key_of df c \<noteq> ''average_'' @ col
   \<Longrightarrow> map_of av' (''average_'' @ col) = Some PyNone"
proof (induction cols arbitrary: av)
  case Nil
  then show ?case by simp
next
  case (Cons c cs)
  show ?case
  proof (cases "c = col")
    case True
    with Cons.prems
    have rest: "averages_loop df cs (AList.update (''average_'' @ col) PyNone av) = Inr av'"
      by simp
    from Cons.prems True have "''average_'' @ col \<notin> key_of df ` set cs" by auto
    from loop_other [OF rest this] show ?thesis
      by (simp add: update_conv')
  next
    case False
    with Cons.prems have in_cs: "col \<in> set cs" by simp
    from Cons.prems False have ne: "key_of df c \<noteq> ''average_'' @ col" by simp
    from Cons.prems obtain av1 where rest: "averages_loop df cs av1 = Inr av'"
      and keys: "fst ` set av1 \<subseteq> insert (key_of df c) (fst ` set av)"
      by (auto simp: key_of_def dom_update split: if_splits sum.splits)
    from keys ne Cons.prems have "''average_'' @ col \<notin> fst ` set av1" by auto
    from Cons.IH [OF rest _ in_cs _ this] Cons.prems show ?thesis by simp
  qed
qed

lemma loop_ok:
  "\<forall>c\<in>set cols. c \<in> set (columns df) \<longrightarrow> (\<exists>m. series_mean (column df c) = Inr m)
   \<Longrightarrow> \<exists>av'. averages_loop df cols av = Inr av'"
  by (induction cols arbitrary: av) auto

lemma keys_distinct:
  "col \<in> set numeric_cols_for_avg \<Longrightarrow>
   \<forall>c\<in>set numeric_cols_for_avg. c \<noteq> col \<longrightarrow>
      key_of df c \<noteq> avg_key col \<and> key_of df c \<noteq> ''average_'' @ col"
  by (auto simp: numeric_cols_for_avg_def key_of_def avg_key_def)

lemma transform_cases:
  "transform_with_distance d rp fps =
     (if read_frames rp fps = [] then Inr (empty_frame, [], PyNone)
      else case averages_loop (pd_concat (read_frames rp fps)) numeric_cols_for_avg [] of
             Inl e \<Rightarrow> Inl e
           | Inr av \<Rightarrow> Inr (pd_concat (read_frames rp fps), av, estimate_travel_time av d))"
  by (auto simp: transform_with_distance_def Let_def)

lemma column_pd_concat:
  "c \<in> set (columns (pd_concat frames)) \<Longrightarrow>
   column (pd_concat frames) c = concat (map (\<lambda>df. column df c) frames)"
  by (simp add: column_def rows_pd_concat map_concat comp_def cell_at_reindex)

lemma series_mean_ok:
  "\<forall>c\<in>set cs. numeric_view c \<noteq> Inl TypeError \<Longrightarrow> \<exists>m. series_mean cs = Inr m"
  using non_null_numbers_ok [of cs] by (auto simp: series_mean_def)

text \<open>
  Claim C4. A batch file that cannot be read is skipped: the transform gives what it gives
  on the readable files alone. The combined table holds the rows of the readable files,
  in file order and then row order, each laid out on the union of the columns with its
  own cells unchanged, so the row count is the sum of the rows read. With no readable file
  the result is the empty table, the empty averages mapping and no estimate. The call
  returns normally whenever the metric cells of the files are numbers or nulls.
\<close>

theorem unreadable_files_skipped:
  "transform_traffic_data rp fps = transform_traffic_data rp (filter (readable rp) fps)
   \<and> (transform_traffic_data rp fps = Inr (df, av, est) \<longrightarrow> (\<exists>f\<in>set fps. readable rp f) \<longrightarrow>
        rows df = concat (map (\<lambda>f. map (reindex (columns df)) (rows (the (rp f))))
                            (filter (readable rp) fps))
        \<and> length (rows df) =
            sum_list (map (\<lambda>f. length (rows (the (rp f)))) (filter (readable rp) fps))
        \<and> (\<forall>r c. c \<in> set (columns df) \<longrightarrow> cell_at (reindex (columns df) r) c = cell_at r c)
        \<and> (\<forall>f\<in>set fps. readable rp f \<longrightarrow> set (columns (the (rp f))) \<subseteq> set (columns df)))
   \<and> ((\<forall>f\<in>set fps. \<not> readable rp f) \<longrightarrow>
        transform_traffic_data rp fps = Inr (empty_frame, [], PyNone))
   \<and> ((\<forall>f\<in>set fps. \<forall>d. rp f = Some d \<longrightarrow>
          (\<forall>r\<in>set (rows d). \<forall>m\<in>set numeric_cols_for_avg.
              numeric_view (cell_at r m) \<noteq> Inl TypeError)) \<longrightarrow>
        (\<exists>res. transform_traffic_data rp fps = Inr res))"
proof -
  let ?frames = "read_frames rp fps"
  have skip: "transform_traffic_data rp fps = transform_traffic_data rp (filter (readable rp) fps)"
    by (simp add: transform_traffic_data_def transform_cases read_frames_idem cong: sum.case_cong)
  have content: "rows df = concat (map (\<lambda>f. map (reindex (columns df)) (rows (the (rp f))))
                            (filter (readable rp) fps))
        \<and> length (rows df) =
            sum_list (map (\<lambda>f. length (rows (the (rp f)))) (filter (readable rp) fps))
        \<and> (\<forall>r c. c \<in> set (columns df) \<longrightarrow> cell_at (reindex (columns df) r) c = cell_at r c)
        \<and> (\<forall>f\<in>set fps. readable rp f \<longrightarrow> set (columns (the (rp f))) \<subseteq> set (columns df))"
    if run: "transform_traffic_data rp fps = Inr (df, av, est)" and some: "\<exists>f\<in>set fps. readable rp f"
  proof -
    from some have "?frames \<noteq> []"
      by (auto simp: read_frames_filter filter_empty_conv)
    with run have df: "df = pd_concat ?frames"
      by (auto simp: transform_traffic_data_def transform_cases split: sum.splits)
    have "rows df = concat (map (\<lambda>f. map (reindex (columns df)) (rows (the (rp f))))
                            (filter (readable rp) fps))"
      unfolding df by (subst rows_pd_concat) (simp add: read_frames_filter comp_def)
    moreover have "length (rows df) =
            sum_list (map (\<lambda>f. length (rows (the (rp f)))) (filter (readable rp) fps))"
      unfolding df by (simp add: length_rows_pd_concat read_frames_filter comp_def)
    moreover have "\<forall>f\<in>set fps. readable rp f \<longrightarrow> set (columns (the (rp f))) \<subseteq> set (columns df)"
      unfolding df by (auto simp: columns_pd_concat read_frames_filter)
    ultimately show ?thesis
      by (simp add: cell_at_reindex)
  qed
  have none: "transform_traffic_data rp fps = Inr (empty_frame, [], PyNone)"
    if "\<forall>f\<in>set fps. \<not> readable rp f"
  proof -
    from that have "?frames = []"
      by (simp add: read_frames_filter filter_empty_conv)
    then show ?thesis
      by (simp add: transform_traffic_data_def transform_cases)
  qed
  have ok: "\<exists>res. transform_traffic_data rp fps = Inr res"
    if num: "\<forall>f\<in>set fps. \<forall>d. rp f = Some d \<longrightarrow>
          (\<forall>r\<in>set (rows d). \<forall>m\<in>set numeric_cols_for_avg.
              numeric_view (cell_at r m) \<noteq> Inl TypeError)"
  proof -
    have cells: "\<forall>c\<in>set (column (pd_concat ?frames) m). numeric_view c \<noteq> Inl TypeError"
      if m: "m \<in> set numeric_cols_for_avg" and "m \<in> set (columns (pd_concat ?frames))" for m
    proof -
      have "numeric_view (cell_at r m) \<noteq> Inl TypeError"
        if "d \<in> set ?frames" "r \<in> set (rows d)" for d r
      proof -
        from that(1) obtain f where "f \<in> set fps" "rp f = Some d"
          by (auto simp: read_frames_filter readable_def)
        with num that(2) m show ?thesis by blast
      qed
      then show ?thesis
        using that(2) by (simp add: column_pd_concat) (auto simp: column_def)
    qed
    have "\<exists>av'. averages_loop (pd_concat ?frames) numeric_cols_for_avg [] = Inr av'"
      using series_mean_ok [OF cells] by (intro loop_ok) blast
    then show ?thesis
      by (auto simp: transform_traffic_data_def transform_cases)
  qed
  from skip content none ok show ?thesis by blast
qed

theorem unreadable_files_skipped_witness:
  "transform_traffic_data example_files [''p1.parquet'', ''p2.parquet'', ''p3.parquet'']
     = Inr (\<lparr>columns = [''currentSpeed'', ''freeFlowSpeed''],
              rows = [[(''currentSpeed'', CNum 30), (''freeFlowSpeed'', CNum 50)],
                      [(''currentSpeed'', CNum 42), (''freeFlowSpeed'', CNull)]]\<rparr>,
            [(''average_currentSpeed_kmph'', PyFloat 36),
             (''average_freeFlowSpeed_kmph'', PyFloat 50),
             (''average_currentTravelTime'', PyNone),
             (''average_freeFlowTravelTime'', PyNone),
             (''average_confidence'', PyNone)],
            PyFloat 500)
   \<and> readable example_files ''p1.parquet'' \<and> \<not> readable example_files ''p2.parquet''
   \<and> readable example_files ''p3.parquet''
   \<and> sum_list (map (\<lambda>f. length (rows (the (example_files f))))
         (filter (readable example_files) [''p1.parquet'', ''p2.parquet'', ''p3.parquet''])) = 2
   \<and> transform_traffic_data example_files [''p2.parquet''] = Inr (empty_frame, [], PyNone)
   \<and> (\<exists>res. transform_traffic_data example_files
          [''p1.parquet'', ''p2.parquet'', ''p3.parquet''] = Inr res)"
proof -
  have run:
    "transform_traffic_data example_files [''p1.parquet'', ''p2.parquet'', ''p3.parquet'']
     = Inr (\<lparr>columns = [''currentSpeed'', ''freeFlowSpeed''],
              rows = [[(''currentSpeed'', CNum 30), (''freeFlowSpeed'', CNum 50)],
                      [(''currentSpeed'', CNum 42), (''freeFlowSpeed'', CNull)]]\<rparr>,
            [(''average_currentSpeed_kmph'', PyFloat 36),
             (''average_freeFlowSpeed_kmph'', PyFloat 50),
             (''average_currentTravelTime'', PyNone),
             (''average_freeFlowTravelTime'', PyNone),
             (''average_confidence'', PyNone)],
            PyFloat 500)"
    by (simp add: transform_traffic_data_def route_distance_meters_def
        transform_with_distance_def example_files_def pd_concat_def reindex_def
        cell_at_def numeric_cols_for_avg_def series_mean_def column_def avg_key_def
        estimate_at_36)
  have r: "readable example_files ''p1.parquet''" "\<not> readable example_files ''p2.parquet''"
    "readable example_files ''p3.parquet''"
    by (simp_all add: readable_def example_files_def)
  have "length (rows \<lparr>columns = [''currentSpeed'', ''freeFlowSpeed''],
              rows = [[(''currentSpeed'', CNum 30), (''freeFlowSpeed'', CNum 50)],
                      [(''currentSpeed'', CNum 42), (''freeFlowSpeed'', CNull)]]\<rparr>) =
     sum_list (map (\<lambda>f. length (rows (the (example_files f))))
         (filter (readable example_files) [''p1.parquet'', ''p2.parquet'', ''p3.parquet'']))"
    using unreadable_files_skipped [of example_files
        "[''p1.parquet'', ''p2.parquet'', ''p3.parquet'']", THEN conjunct2, THEN conjunct1,
        rule_format, OF run] r
    by simp
  moreover have "transform_traffic_data example_files [''p2.parquet''] = Inr (empty_frame, [], PyNone)"
    using unreadable_files_skipped [of example_files "[''p2.parquet'']",
        THEN conjunct2, THEN conjunct2, THEN conjunct1] r
    by simp
  moreover have "\<exists>res. transform_traffic_data example_files
          [''p1.parquet'', ''p2.parquet'', ''p3.parquet''] = Inr res"
  proof -
    have num:
    "\<forall>f\<in>set [''p1.parquet'', ''p2.parquet'', ''p3.parquet'']. \<forall>d. example_files f = Some d \<longrightarrow>
          (\<forall>r\<in>set (rows d). \<forall>m\<in>set numeric_cols_for_avg.
              numeric_view (cell_at r m) \<noteq> Inl TypeError)"
      by (simp add: example_files_def numeric_cols_for_avg_def cell_at_def)
    show ?thesis
      using unreadable_files_skipped [of example_files
          "[''p1.parquet'', ''p2.parquet'', ''p3.parquet'']",
          THEN conjunct2, THEN conjunct2, THEN conjunct2, THEN mp, OF num]
      by simp
  qed
  ultimately show ?thesis using run r by simp
qed

lemma unit_keys:
  "m \<in> set numeric_cols_for_avg \<Longrightarrow>
     key_encodes_unit (avg_key m) \<and> \<not> key_encodes_unit (''average_'' @ m)"
  by (auto simp: numeric_cols_for_avg_def avg_key_def key_encodes_unit_def ends_with_def)

text \<open>
  Claim C3, as the code has it. For a combined table that the transform returns, every
  metric of the fixed set that is a column of the table has an entry under the key
  \<open>avg_key\<close>, which names its unit, and the entry is the arithmetic mean of the
  non-null values of the column (NaN when it has none); on a column of floats and nulls
  this is the sum of the floats over their count. A metric that is not a column has
  the entry \<^verbatim>\<open>None\<close> under the key \<^verbatim>\<open>average_<metric>\<close>, which names no unit.
  The mapping has no other key.
\<close>

theorem averages_of_combined_table:
  assumes run: "transform_traffic_data rp fps = Inr (df, av, est)"
    and some: "\<exists>f\<in>set fps. readable rp f"
  shows "(\<forall>m\<in>set numeric_cols_for_avg.
           (m \<in> set (columns df) \<longrightarrow>
              (\<exists>xs. non_null_numbers (column df m) = Inr xs
                  \<and> map_of av (avg_key m) =
                      Some (if xs = [] then PyNaN else PyFloat (sum_list xs / real (length xs))))
              \<and> (\<forall>vs. column df m = map opt_cell vs \<longrightarrow>
                    map_of av (avg_key m) =
                      Some (let xs = List.map_filter (\<lambda>v. v) vs
                            in if xs = [] then PyNaN
                               else PyFloat (sum_list xs / real (length xs))))
              \<and> key_encodes_unit (avg_key m))
         \<and> (m \<notin> set (columns df) \<longrightarrow>
              map_of av (''average_'' @ m) = Some PyNone
              \<and> \<not> key_encodes_unit (''average_'' @ m)))
       \<and> fst ` set av = key_of df ` set numeric_cols_for_avg
       \<and> map avg_key numeric_cols_for_avg =
           [''average_currentSpeed_kmph'', ''average_freeFlowSpeed_kmph'',
            ''average_currentTravelTime_seconds_per_segment'',
            ''average_freeFlowTravelTime_seconds_per_segment'',
            ''average_confidence_unitless'']"
proof -
  from some have "read_frames rp fps \<noteq> []"
    by (auto simp: read_frames_filter filter_empty_conv)
  with run have loop: "averages_loop df numeric_cols_for_avg [] = Inr av"
    by (auto simp: transform_traffic_data_def transform_cases split: sum.splits)
  have d: "distinct numeric_cols_for_avg"
    by (simp add: numeric_cols_for_avg_def)
  have present: "(\<exists>xs. non_null_numbers (column df m) = Inr xs
                  \<and> map_of av (avg_key m) =
                      Some (if xs = [] then PyNaN else PyFloat (sum_list xs / real (length xs))))
              \<and> (\<forall>vs. column df m = map opt_cell vs \<longrightarrow>
                    map_of av (avg_key m) =
                      Some (let xs = List.map_filter (\<lambda>v. v) vs
                            in if xs = [] then PyNaN
                               else PyFloat (sum_list xs / real (length xs))))"
    if m: "m \<in> set numeric_cols_for_avg" and col: "m \<in> set (columns df)" for m
  proof -
    from loop_present [OF loop d m col] keys_distinct [OF m, of df]
    obtain v where v: "series_mean (column df m) = Inr v" "map_of av (avg_key m) = Some v"
      by blast
    then obtain xs where xs: "non_null_numbers (column df m) = Inr xs"
      "v = (if xs = [] then PyNaN else PyFloat (sum_list xs / real (length xs)))"
      by (auto simp: series_mean_def split: sum.splits)
    with v show ?thesis
      by (auto simp: non_null_numbers_opt Let_def)
  qed
  have absent: "map_of av (''average_'' @ m) = Some PyNone"
    if m: "m \<in> set numeric_cols_for_avg" and col: "m \<notin> set (columns df)" for m
    using loop_absent [OF loop d m col] keys_distinct [OF m, of df] by simp
  have keys: "fst ` set av = key_of df ` set numeric_cols_for_avg"
    using loop_keys [OF loop] by simp
  have names: "map avg_key numeric_cols_for_avg =
           [''average_currentSpeed_kmph'', ''average_freeFlowSpeed_kmph'',
            ''average_currentTravelTime_seconds_per_segment'',
            ''average_freeFlowTravelTime_seconds_per_segment'',
            ''average_confidence_unitless'']"
    by (simp add: numeric_cols_for_avg_def avg_key_def)
  from present absent keys names unit_keys show ?thesis
    by blast
qed

lemma example_run_three:
  "transform_traffic_data example_files [''p1.parquet'', ''p3.parquet'', ''p4.parquet'']
     = Inr (three_rows, three_rows_averages, PyFloat 500)"
  by (simp add: transform_traffic_data_def route_distance_meters_def
      transform_with_distance_def example_files_def pd_concat_def reindex_def
      cell_at_def numeric_cols_for_avg_def series_mean_def column_def avg_key_def
      estimate_at_36 three_rows_def three_rows_averages_def)

theorem averages_of_combined_table_witness:
  "transform_traffic_data example_files [''p1.parquet'', ''p3.parquet'', ''p4.parquet'']
     = Inr (three_rows, three_rows_averages, PyFloat 500)
   \<and> (\<exists>f\<in>set [''p1.parquet'', ''p3.parquet'', ''p4.parquet'']. readable example_files f)
   \<and> column three_rows ''currentSpeed'' = map opt_cell [Some 30, Some 42, None]
   \<and> map_of three_rows_averages ''average_currentSpeed_kmph'' = Some (PyFloat ((30 + 42) / 2))
   \<and> ''confidence'' \<notin> set (columns three_rows)
   \<and> map_of three_rows_averages ''average_confidence'' = Some PyNone"
proof -
  have some: "\<exists>f\<in>set [''p1.parquet'', ''p3.parquet'', ''p4.parquet'']. readable example_files f"
    by (simp add: readable_def example_files_def)
  have col: "column three_rows ''currentSpeed'' = map opt_cell [Some 30, Some 42, None]"
    by (simp add: column_def cell_at_def opt_cell_def three_rows_def)
  have speed: "''currentSpeed'' \<in> set numeric_cols_for_avg"
    and conf: "''confidence'' \<in> set numeric_cols_for_avg"
    by (simp_all add: numeric_cols_for_avg_def)
  have present: "''currentSpeed'' \<in> set (columns three_rows)"
    and absent: "''confidence'' \<notin> set (columns three_rows)"
    by (simp_all add: three_rows_def)
  note all = averages_of_combined_table [OF example_run_three some, THEN conjunct1]
  from all [THEN bspec, OF speed, THEN conjunct1, THEN mp, OF present,
      THEN conjunct2, THEN conjunct1, THEN spec, THEN mp, OF col]
  have "map_of three_rows_averages ''average_currentSpeed_kmph'' = Some (PyFloat ((30 + 42) / 2))"
    by (simp add: avg_key_def)
  moreover from all [THEN bspec, OF conf, THEN conjunct2, THEN mp, OF absent]
  have "map_of three_rows_averages ''average_confidence'' = Some PyNone"
    by simp
  ultimately show ?thesis
    using example_run_three some col absent by simp
qed

text \<open>
  Against claim C3 as stated: on the three readable example files, which have no column
  for the travel times or the confidence, the averages mapping has the keys
  \<^verbatim>\<open>average_currentTravelTime\<close>, \<^verbatim>\<open>average_freeFlowTravelTime\<close> and
  \<^verbatim>\<open>average_confidence\<close>, none of which names a unit.
\<close>

theorem averages_key_counterexample:
  "transform_traffic_data example_files [''p1.parquet'', ''p3.parquet'', ''p4.parquet'']
     = Inr (three_rows, three_rows_averages, PyFloat 500)
   \<and> map fst three_rows_averages =
       [''average_currentSpeed_kmph'', ''average_freeFlowSpeed_kmph'',
        ''average_currentTravelTime'', ''average_freeFlowTravelTime'', ''average_confidence'']
   \<and> \<not> key_encodes_unit ''average_currentTravelTime''
   \<and> \<not> key_encodes_unit ''average_freeFlowTravelTime''
   \<and> \<not> key_encodes_unit ''average_confidence''"
  using example_run_three
  by (simp add: key_encodes_unit_def ends_with_def three_rows_averages_def)

section \<open>The traffic parser: the record of a document\<close>

lemma parse_traffic_row:
  assumes "xml_data \<noteq> []" "ET_fromstring L xml_data = Some r"
    "coordinates_loop L (coordinate_entries r) = Inr cl"
  shows "parse_traffic_response_to_dataframe L xml_data =
     \<lparr>columns = scalar_tags @ [''coordinate_count'', ''coordinates''],
      rows = [[(''frc'', scalar_cell r ''frc''),
         (''currentSpeed'', to_numeric_coerce L (scalar_cell r ''currentSpeed'')),
         (''freeFlowSpeed'', to_numeric_coerce L (scalar_cell r ''freeFlowSpeed'')),
         (''currentTravelTime'', to_numeric_coerce L (scalar_cell r ''currentTravelTime'')),
         (''freeFlowTravelTime'', to_numeric_coerce L (scalar_cell r ''freeFlowTravelTime'')),
         (''confidence'', to_numeric_coerce L (scalar_cell r ''confidence'')),
         (''roadClosure'', road_closure_flag (scalar_cell r ''roadClosure'')),
         (''coordinate_count'', CInt (int (length cl))),
         (''coordinates'', CCoords cl)]]\<rparr>"
  using assms
  by (simp add: parse_traffic_response_to_dataframe_def segment_record_def scalar_tags_def
      frame_of_records_def reindex_def cell_at_def coerce_columns_def traffic_numeric_cols_def
      assign_column_def)

lemma parse_traffic_raise:
  assumes "ET_fromstring L xml_data = Some r"
    "coordinates_loop L (coordinate_entries r) = Inl e"
  shows "parse_traffic_response_to_dataframe L xml_data = empty_frame"
  using assms
  by (simp add: parse_traffic_response_to_dataframe_def segment_record_def)

lemma coordinate_value_cases:
  "coordinate_value L el =
     (if float_accepts L el then Inr (given_value L el) else Inl ValueError)"
  by (auto simp: coordinate_value_def float_accepts_def given_value_def
      split: option.splits)

lemma coordinates_loop_pairs:
  "coordinates_loop L es = Inr cl \<Longrightarrow> cl = List.map_filter (entry_pair L) es"
proof (induction es arbitrary: cl)
  case Nil
  then show ?case by simp
next
  case (Cons ce es)
  then show ?case
    by (auto simp: coordinate_value_cases entry_pair_def
        split: if_splits sum.splits option.splits)
qed

lemma coordinates_loop_ok:
  "list_all (\<lambda>ce. float_accepts L (element_find ce ''latitude'')
                   \<and> float_accepts L (element_find ce ''longitude'')) es
   \<longleftrightarrow> (\<exists>cl. coordinates_loop L es = Inr cl)"
proof (induction es)
  case Nil
  then show ?case by simp
next
  case (Cons ce es)
  then show ?case
    by (auto simp: coordinate_value_cases split: sum.splits)
qed

lemma coordinates_loop_error:
  "coordinates_loop L es = Inl e \<Longrightarrow> e = ValueError"
  by (induction es arbitrary: e)
    (auto simp: coordinate_value_cases split: if_splits sum.splits)

lemma find_insert:
  "\<not> P e \<Longrightarrow> List.find P (xs @ e # ys) = List.find P (xs @ ys)"
  by (induction xs) auto

lemma element_find_insert:
  "elem_tag el \<noteq> t \<Longrightarrow>
   element_find (Element n txt (before @ el # after)) t =
   element_find (Element n txt (before @ after)) t"
  by (simp add: element_find_def find_insert)

lemma element_find_absent:
  "\<forall>c\<in>set cs. elem_tag c \<noteq> t \<Longrightarrow> element_find (Element n txt cs) t = None"
  by (simp add: element_find_def find_None_iff)

text \<open>
  Claim C5, as the code has it. Take a well-formed document with no top-level element
  tagged \<open>t\<close>, one of the seven scalar tags, and the document with the same content
  plus such an element. Both give a record or both give none, and the record of the first
  is the record of the second with the field \<open>t\<close> set to null, or to \<^verbatim>\<open>False\<close> when
  \<open>t\<close> is \<^verbatim>\<open>roadClosure\<close>: every other field is the same.
\<close>

theorem missing_scalar_tag:
  assumes payload: "xml \<noteq> []" "xml' \<noteq> []"
    and without: "ET_fromstring L xml = Some (Element n txt (before @ after))"
    and "with": "ET_fromstring L xml' = Some (Element n txt (before @ el # after))"
    and tag: "elem_tag el = t" "t \<in> set scalar_tags"
    and absent: "\<forall>c\<in>set (before @ after). elem_tag c \<noteq> t"
  shows "columns (parse_traffic_response_to_dataframe L xml) =
           columns (parse_traffic_response_to_dataframe L xml')
       \<and> rows (parse_traffic_response_to_dataframe L xml) =
           map (AList.update t (null_field t)) (rows (parse_traffic_response_to_dataframe L xml'))
       \<and> (\<forall>r'. rows (parse_traffic_response_to_dataframe L xml') = [r'] \<longrightarrow>
            (\<exists>r. rows (parse_traffic_response_to_dataframe L xml) = [r]
                \<and> cell_at r t = null_field t
                \<and> (\<forall>c. c \<noteq> t \<longrightarrow> cell_at r c = cell_at r' c)))"
proof -
  let ?root = "Element n txt (before @ after)"
  let ?root' = "Element n txt (before @ el # after)"
  from tag have nc: "elem_tag el \<noteq> ''coordinates''"
    by (auto simp: scalar_tags_def)
  then have entries: "coordinate_entries ?root' = coordinate_entries ?root"
    by (simp add: coordinate_entries_def element_find_insert)
  have other: "scalar_cell ?root' c = scalar_cell ?root c" if "c \<noteq> t" for c
    using that tag by (simp add: scalar_cell_def element_find_insert)
  have null: "scalar_cell ?root t = CNull"
    using absent by (simp add: scalar_cell_def element_find_absent)
  have upd: "cell_at (AList.update t v r) c = (if c = t then v else cell_at r c)" for v r c
    by (simp add: cell_at_def update_conv')
  show ?thesis
  proof (cases "coordinates_loop L (coordinate_entries ?root)")
    case (Inl e)
    with without "with" entries show ?thesis
      by (simp add: parse_traffic_raise [where e = e] empty_frame_def)
  next
    case (Inr cl)
    note a = parse_traffic_row [OF payload(1) without Inr]
    note b = parse_traffic_row [OF payload(2) "with" Inr [folded entries]]
    from tag(2) have "t = ''frc'' \<or> t = ''currentSpeed'' \<or> t = ''freeFlowSpeed''
      \<or> t = ''currentTravelTime'' \<or> t = ''freeFlowTravelTime'' \<or> t = ''confidence''
      \<or> t = ''roadClosure''"
      by (simp add: scalar_tags_def)
    then have rows_eq: "rows (parse_traffic_response_to_dataframe L xml) =
           map (AList.update t (null_field t)) (rows (parse_traffic_response_to_dataframe L xml'))"
      using null other
      by (elim disjE)
        (simp_all add: a b null_field_def to_numeric_coerce_def road_closure_flag_def)
    moreover have "columns (parse_traffic_response_to_dataframe L xml) =
           columns (parse_traffic_response_to_dataframe L xml')"
      by (simp add: a b)
    ultimately show ?thesis
      by (simp add: upd)
  qed
qed

lemmas example_defs =
  example_library_def example_fromstring_def example_float_def
  segment_xml_def segment_document_def no_closure_xml_def no_closure_document_def
  no_speed_xml_def no_speed_document_def two_entries_xml_def two_entries_document_def
  bad_latitude_xml_def bad_latitude_document_def other_xml_def other_document_def
  bad_speed_xml_def bad_speed_document_def one_entry_xml_def one_entry_document_def
  longitude_only_xml_def longitude_only_document_def longitude_only_entry_def
  frc_element_def speed_element_def closure_element_def full_entry_def half_entry_def
  bad_entry_def

lemmas traffic_defs =
  parse_traffic_response_to_dataframe_def segment_record_def scalar_tags_def
  frame_of_records_def reindex_def cell_at_def coerce_columns_def traffic_numeric_cols_def
  assign_column_def coordinate_entries_def element_find_def element_findall_def
  scalar_cell_def coordinate_value_def to_numeric_coerce_def road_closure_flag_def
  lower_char_def empty_frame_def

theorem missing_scalar_tag_witness:
  "no_speed_xml \<noteq> [] \<and> segment_xml \<noteq> []
   \<and> ET_fromstring example_library no_speed_xml =
       Some (Element ''flowSegmentData'' None
         ([frc_element] @ [closure_element, Element ''coordinates'' None [full_entry, half_entry]]))
   \<and> ET_fromstring example_library segment_xml =
       Some (Element ''flowSegmentData'' None
         ([frc_element] @ speed_element #
            [closure_element, Element ''coordinates'' None [full_entry, half_entry]]))
   \<and> elem_tag speed_element = ''currentSpeed'' \<and> ''currentSpeed'' \<in> set scalar_tags
   \<and> rows (parse_traffic_response_to_dataframe example_library segment_xml) =
       [[(''frc'', CStr ''FRC2''), (''currentSpeed'', CNum 36),
         (''freeFlowSpeed'', CNull), (''currentTravelTime'', CNull),
         (''freeFlowTravelTime'', CNull), (''confidence'', CNull),
         (''roadClosure'', CBool True), (''coordinate_count'', CInt 1),
         (''coordinates'', CCoords [(21 / 2, 213 / 2)])]]
   \<and> rows (parse_traffic_response_to_dataframe example_library no_speed_xml) =
       [[(''frc'', CStr ''FRC2''), (''currentSpeed'', CNull),
         (''freeFlowSpeed'', CNull), (''currentTravelTime'', CNull),
         (''freeFlowTravelTime'', CNull), (''confidence'', CNull),
         (''roadClosure'', CBool True), (''coordinate_count'', CInt 1),
         (''coordinates'', CCoords [(21 / 2, 213 / 2)])]]"
proof -
  have payload: "no_speed_xml \<noteq> []" "segment_xml \<noteq> []"
    by (simp_all add: no_speed_xml_def segment_xml_def)
  have without: "ET_fromstring example_library no_speed_xml =
       Some (Element ''flowSegmentData'' None
         ([frc_element] @ [closure_element, Element ''coordinates'' None [full_entry, half_entry]]))"
    by (simp add: example_defs)
  have "with": "ET_fromstring example_library segment_xml =
       Some (Element ''flowSegmentData'' None
         ([frc_element] @ speed_element #
            [closure_element, Element ''coordinates'' None [full_entry, half_entry]]))"
    by (simp add: example_defs)
  have tag: "elem_tag speed_element = ''currentSpeed''" "''currentSpeed'' \<in> set scalar_tags"
    by (simp_all add: speed_element_def scalar_tags_def)
  have absent: "\<forall>c\<in>set ([frc_element] @
      [closure_element, Element ''coordinates'' None [full_entry, half_entry]]).
      elem_tag c \<noteq> ''currentSpeed''"
    by (simp add: frc_element_def closure_element_def)
  have seg: "rows (parse_traffic_response_to_dataframe example_library segment_xml) =
       [[(''frc'', CStr ''FRC2''), (''currentSpeed'', CNum 36),
         (''freeFlowSpeed'', CNull), (''currentTravelTime'', CNull),
         (''freeFlowTravelTime'', CNull), (''confidence'', CNull),
         (''roadClosure'', CBool True), (''coordinate_count'', CInt 1),
         (''coordinates'', CCoords [(21 / 2, 213 / 2)])]]"
    by (simp add: example_defs traffic_defs)
  from missing_scalar_tag [OF payload without "with" tag absent, THEN conjunct2, THEN conjunct1]
  have "rows (parse_traffic_response_to_dataframe example_library no_speed_xml) =
       [[(''frc'', CStr ''FRC2''), (''currentSpeed'', CNull),
         (''freeFlowSpeed'', CNull), (''currentTravelTime'', CNull),
         (''freeFlowTravelTime'', CNull), (''confidence'', CNull),
         (''roadClosure'', CBool True), (''coordinate_count'', CInt 1),
         (''coordinates'', CCoords [(21 / 2, 213 / 2)])]]"
    by (simp add: seg null_field_def)
  with payload without "with" tag seg show ?thesis
    by simp
qed

text \<open>
  Against claim C5 as stated: the example segment without a \<^verbatim>\<open>roadClosure\<close> element
  has the field \<^verbatim>\<open>roadClosure\<close> equal to \<^verbatim>\<open>False\<close>, not null.
\<close>

theorem missing_road_closure_counterexample:
  "ET_fromstring example_library no_closure_xml = Some no_closure_document
   \<and> element_find no_closure_document ''roadClosure'' = None
   \<and> rows (parse_traffic_response_to_dataframe example_library no_closure_xml) =
       [[(''frc'', CStr ''FRC2''), (''currentSpeed'', CNum 36),
         (''freeFlowSpeed'', CNull), (''currentTravelTime'', CNull),
         (''freeFlowTravelTime'', CNull), (''confidence'', CNull),
         (''roadClosure'', CBool False), (''coordinate_count'', CInt 1),
         (''coordinates'', CCoords [(21 / 2, 213 / 2)])]]
   \<and> cell_at (hd (rows (parse_traffic_response_to_dataframe example_library no_closure_xml)))
         ''roadClosure'' \<noteq> CNull"
  by (simp add: example_defs traffic_defs)

text \<open>
  Claim C10, as the code has it. A well-formed document, whatever its shape, gives
  exactly one record when each latitude and longitude text of its coordinate entries is
  one that \<^verbatim>\<open>float()\<close> accepts. When the document has none of the expected tags, the
  record has \<^verbatim>\<open>frc\<close> and the five numeric fields null, \<^verbatim>\<open>roadClosure\<close> false, no
  coordinates and a coordinate count of zero.
\<close>

theorem well_formed_document_one_record:
  assumes "xml \<noteq> []" and "ET_fromstring L xml = Some r"
  shows "(coordinates_parse L r \<longrightarrow>
            length (rows (parse_traffic_response_to_dataframe L xml)) = 1
            \<and> columns (parse_traffic_response_to_dataframe L xml) =
                scalar_tags @ [''coordinate_count'', ''coordinates''])
       \<and> ((\<forall>c\<in>set (elem_children r).
              elem_tag c \<notin> set scalar_tags \<and> elem_tag c \<noteq> ''coordinates'') \<longrightarrow>
            parse_traffic_response_to_dataframe L xml =
              \<lparr>columns = scalar_tags @ [''coordinate_count'', ''coordinates''],
               rows = [[(''frc'', CNull), (''currentSpeed'', CNull),
                        (''freeFlowSpeed'', CNull), (''currentTravelTime'', CNull),
                        (''freeFlowTravelTime'', CNull), (''confidence'', CNull),
                        (''roadClosure'', CBool False), (''coordinate_count'', CInt 0),
                        (''coordinates'', CCoords [])]]\<rparr>)"
proof -
  have one: "length (rows (parse_traffic_response_to_dataframe L xml)) = 1
            \<and> columns (parse_traffic_response_to_dataframe L xml) =
                scalar_tags @ [''coordinate_count'', ''coordinates'']"
    if "coordinates_parse L r"
  proof -
    from that obtain cl where "coordinates_loop L (coordinate_entries r) = Inr cl"
      by (auto simp: coordinates_parse_def coordinates_loop_ok)
    from parse_traffic_row [OF assms this] show ?thesis by simp
  qed
  have none: "parse_traffic_response_to_dataframe L xml =
              \<lparr>columns = scalar_tags @ [''coordinate_count'', ''coordinates''],
               rows = [[(''frc'', CNull), (''currentSpeed'', CNull),
                        (''freeFlowSpeed'', CNull), (''currentTravelTime'', CNull),
                        (''freeFlowTravelTime'', CNull), (''confidence'', CNull),
                        (''roadClosure'', CBool False), (''coordinate_count'', CInt 0),
                        (''coordinates'', CCoords [])]]\<rparr>"
    if no: "\<forall>c\<in>set (elem_children r).
              elem_tag c \<notin> set scalar_tags \<and> elem_tag c \<noteq> ''coordinates''"
  proof -
    obtain n tx cs where r: "r = Element n tx cs" by (cases r)
    from no r have nf: "element_find r t = None"
      if "t \<in> set scalar_tags \<or> t = ''coordinates''" for t
      using that by (auto intro!: element_find_absent)
    then have "coordinate_entries r = []"
      by (simp add: coordinate_entries_def)
    then have loop: "coordinates_loop L (coordinate_entries r) = Inr []" by simp
    have "scalar_cell r t = CNull" if "t \<in> set scalar_tags" for t
      using nf that by (simp add: scalar_cell_def)
    then show ?thesis
      by (simp add: parse_traffic_row [OF assms loop] scalar_tags_def
          to_numeric_coerce_def road_closure_flag_def)
  qed
  from one none show ?thesis by blast
qed

theorem well_formed_document_one_record_witness:
  "other_xml \<noteq> [] \<and> ET_fromstring example_library other_xml = Some other_document
   \<and> coordinates_parse example_library other_document
   \<and> list_all (\<lambda>c. elem_tag c \<notin> set scalar_tags \<and> elem_tag c \<noteq> ''coordinates'')
         (elem_children other_document)
   \<and> length (rows (parse_traffic_response_to_dataframe example_library other_xml)) = 1
   \<and> parse_traffic_response_to_dataframe example_library other_xml =
       \<lparr>columns = scalar_tags @ [''coordinate_count'', ''coordinates''],
        rows = [[(''frc'', CNull), (''currentSpeed'', CNull),
                 (''freeFlowSpeed'', CNull), (''currentTravelTime'', CNull),
                 (''freeFlowTravelTime'', CNull), (''confidence'', CNull),
                 (''roadClosure'', CBool False), (''coordinate_count'', CInt 0),
                 (''coordinates'', CCoords [])]]\<rparr>"
proof -
  have payload: "other_xml \<noteq> []"
    by (simp add: other_xml_def)
  have doc: "ET_fromstring example_library other_xml = Some other_document"
    by (simp add: example_defs)
  have ok: "coordinates_parse example_library other_document"
    by (simp add: coordinates_parse_def coordinate_entries_def element_find_def
        other_document_def)
  have no: "\<forall>c\<in>set (elem_children other_document).
              elem_tag c \<notin> set scalar_tags \<and> elem_tag c \<noteq> ''coordinates''"
    by (simp add: other_document_def scalar_tags_def)
  note t = well_formed_document_one_record [OF payload doc]
  from t [THEN conjunct1, THEN mp, OF ok] t [THEN conjunct2, THEN mp, OF no]
    payload doc ok no
  show ?thesis
    by (simp add: list_all_iff)
qed

text \<open>
  Against claim C10 as stated: the example document of another shape, which has none of
  the expected tags, gives a record whose \<^verbatim>\<open>roadClosure\<close> field is \<^verbatim>\<open>False\<close>, not
  null.
\<close>

theorem other_shape_counterexample:
  "ET_fromstring example_library other_xml = Some other_document
   \<and> cell_at (hd (rows (parse_traffic_response_to_dataframe example_library other_xml)))
        ''roadClosure'' = CBool False
   \<and> CBool False \<noteq> CNull"
  by (simp add: example_defs traffic_defs)

section \<open>The weather parser: the record of a response\<close>

lemma nested_get_ok:
  "object_or_absent kvs k1 \<Longrightarrow>
   nested_get (JObj kvs) k1 k2 = Inr (member2 (JObj kvs) k1 k2)"
  by (auto simp: object_or_absent_def nested_get_def py_get_def member2_def dict_get_def
      split: option.splits json.splits)

lemma nested_get_raise:
  "\<not> object_or_absent kvs k1 \<Longrightarrow> nested_get (JObj kvs) k1 k2 = Inl AttributeError"
  by (auto simp: object_or_absent_def nested_get_def py_get_def
      split: option.splits json.splits)

lemma weather_get_ok:
  "weather_list_ok kvs \<Longrightarrow> weather_get (JObj kvs) k = Inr (first_weather (JObj kvs) k)"
  by (auto simp: weather_list_ok_def weather_get_def py_get_def py_first_def first_weather_def
      dict_get_def split: option.splits json.splits list.splits)

lemma weather_get_raise:
  "\<not> weather_list_ok kvs \<Longrightarrow> \<exists>e. weather_get (JObj kvs) k = Inl e"
  by (auto simp: weather_list_ok_def weather_get_def py_get_def py_first_def
      split: option.splits json.splits list.splits)

lemma build_record_raise:
  "(k, Inl e) \<in> set fs \<Longrightarrow> \<exists>e'. build_record fs = Inl e'"
proof (induction fs rule: build_record.induct)
  case 1
  then show ?case by simp
next
  case (2 k e rest)
  then show ?case by simp
next
  case (3 k v rest)
  then show ?case by (auto split: sum.splits)
qed

lemma weather_record_ok:
  assumes "expected_shape data"
  shows "weather_record now data location_coords =
     Inr ([(''latitude'', dict_get location_coords ''lat''),
           (''longitude'', dict_get location_coords ''lon''),
           (''timestamp_utc'', JStr now)] @
          map (\<lambda>col. (col, response_field data col))
            [''temperature_celsius'', ''feels_like_celsius'', ''pressure_hpa'',
             ''humidity_percent'', ''wind_speed_mps'', ''wind_deg'', ''weather_description'',
             ''weather_icon'', ''cloudiness_percent'', ''city_name''])"
proof -
  from assms obtain kvs where data: "data = JObj kvs"
    and ok: "object_or_absent kvs ''main''" "object_or_absent kvs ''wind''"
      "object_or_absent kvs ''clouds''" "weather_list_ok kvs"
    by (auto simp: expected_shape_def split: json.splits)
  show ?thesis
    unfolding data
    by (simp add: weather_record_def nested_get_ok ok weather_get_ok response_field_def
        py_get_def dict_get_def)
qed

lemma weather_record_raise:
  assumes "\<not> expected_shape data"
  shows "\<exists>e. weather_record now data location_coords = Inl e"
proof (cases data)
  case (JObj kvs)
  with assms consider "\<not> object_or_absent kvs ''main''" | "\<not> object_or_absent kvs ''wind''"
    | "\<not> object_or_absent kvs ''clouds''" | "\<not> weather_list_ok kvs"
    by (auto simp: expected_shape_def)
  then show ?thesis
  proof cases
    case 1
    show ?thesis
      unfolding weather_record_def JObj
      by (rule build_record_raise [where k = "''temperature_celsius''" and e = AttributeError])
        (simp add: nested_get_raise [OF 1])
  next
    case 2
    show ?thesis
      unfolding weather_record_def JObj
      by (rule build_record_raise [where k = "''wind_speed_mps''" and e = AttributeError])
        (simp add: nested_get_raise [OF 2])
  next
    case 3
    show ?thesis
      unfolding weather_record_def JObj
      by (rule build_record_raise [where k = "''cloudiness_percent''" and e = AttributeError])
        (simp add: nested_get_raise [OF 3])
  next
    case 4
    from weather_get_raise [OF 4, of "''description''"] obtain e
      where "weather_get (JObj kvs) ''description'' = Inl e" ..
    then show ?thesis
      unfolding weather_record_def JObj
      by (intro build_record_raise [where k = "''weather_description''" and e = e]) simp
  qed
qed (simp_all add: weather_record_def nested_get_def py_get_def)

lemma parse_weather_row:
  assumes "json_data \<noteq> []" "json_loads L json_data = Some data" "expected_shape data"
  shows "parse_weather_response_to_dataframe L now json_data location_coords =
     \<lparr>columns = [''latitude'', ''longitude'', ''timestamp_utc''] @ response_columns,
      rows = [[(''latitude'', stored_cell L ''latitude'' (dict_get location_coords ''lat'')),
               (''longitude'', stored_cell L ''longitude'' (dict_get location_coords ''lon'')),
               (''timestamp_utc'', CStr now)] @
              map (\<lambda>col. (col, stored_cell L col (response_field data col))) response_columns]\<rparr>"
  using assms
  by (simp add: parse_weather_response_to_dataframe_def weather_record_ok
      frame_of_records_def reindex_def cell_at_def coerce_columns_def weather_numeric_cols_def
      assign_column_def response_columns_def stored_cell_def)

lemma parse_weather_raise:
  assumes "json_loads L json_data = Some data" "\<not> expected_shape data"
  shows "parse_weather_response_to_dataframe L now json_data location_coords = empty_frame"
  using assms weather_record_raise [OF assms(2), of now location_coords]
  by (auto simp: parse_weather_response_to_dataframe_def)

lemma weather_row_cells:
  assumes r: "r \<in> set (rows (parse_weather_response_to_dataframe L now json_data location_coords))"
    and decode: "json_loads L json_data = Some data"
  shows "cell_at r ''latitude'' = stored_cell L ''latitude'' (dict_get location_coords ''lat'')"
    and "cell_at r ''longitude'' = stored_cell L ''longitude'' (dict_get location_coords ''lon'')"
    and "cell_at r ''timestamp_utc'' = CStr now"
    and "col \<in> set response_columns \<Longrightarrow>
           cell_at r col = stored_cell L col (response_field data col)"
proof -
  from r have ne: "json_data \<noteq> []"
    by (auto simp: parse_weather_response_to_dataframe_def empty_frame_def)
  have shape: "expected_shape data"
  proof (rule ccontr)
    assume "\<not> expected_shape data"
    from parse_weather_raise [OF decode this, of now location_coords] r show False
      by (simp add: empty_frame_def)
  qed
  note row = parse_weather_row [OF ne decode shape, of now location_coords]
  from r show "cell_at r ''latitude'' = stored_cell L ''latitude'' (dict_get location_coords ''lat'')"
    and "cell_at r ''longitude'' = stored_cell L ''longitude'' (dict_get location_coords ''lon'')"
    and "cell_at r ''timestamp_utc'' = CStr now"
    by (simp_all add: row cell_at_def)
  show "cell_at r col = stored_cell L col (response_field data col)"
    if "col \<in> set response_columns"
    using r that by (auto simp: row cell_at_def response_columns_def)
qed

lemma stored_cell_null: "stored_cell L col JNull = CNull"
  by (simp add: stored_cell_def to_numeric_coerce_def)



lemmas weather_defs =
  parse_weather_response_to_dataframe_def example_library_def example_loads_def
  weather_json_def no_temp_json_def empty_weather_json_def list_json_def
  weather_document_def no_temp_document_def empty_weather_document_def
  weather_record_def weather_get_def py_get_def py_first_def nested_get_def dict_get_def
  frame_of_records_def reindex_def cell_at_def coerce_columns_def weather_numeric_cols_def
  assign_column_def to_numeric_coerce_def example_coords_def empty_frame_def




section \<open>When the parsers return no record\<close>

lemma traffic_row_cells:
  assumes "xml \<noteq> []" "ET_fromstring L xml = Some r" "coordinates_parse L r"
  shows "\<exists>row. rows (parse_traffic_response_to_dataframe L xml) = [row]
      \<and> cell_at row ''frc'' = scalar_cell r ''frc''
      \<and> (\<forall>t\<in>set traffic_numeric_cols. cell_at row t = to_numeric_coerce L (scalar_cell r t))
      \<and> cell_at row ''roadClosure'' = road_closure_flag (scalar_cell r ''roadClosure'')
      \<and> cell_at row ''coordinates'' =
          CCoords (List.map_filter (entry_pair L) (coordinate_entries r))
      \<and> cell_at row ''coordinate_count'' =
          CInt (int (length (List.map_filter (entry_pair L) (coordinate_entries r))))"
proof -
  from assms(3) obtain cl where cl: "coordinates_loop L (coordinate_entries r) = Inr cl"
    by (auto simp: coordinates_parse_def coordinates_loop_ok)
  from coordinates_loop_pairs [OF cl] show ?thesis
    by (simp add: parse_traffic_row [OF assms(1,2) cl] cell_at_def traffic_numeric_cols_def)
qed

text \<open>
  Claim C2, as the code has it. Neither parser raises: each handler returns the empty
  frame. The traffic parser gives the empty frame for an empty payload and for one that
  does not parse, and exactly one record for a well-formed document of any shape whose
  coordinate texts are numeric; in that record a missing scalar tag is null (false for
  \<^verbatim>\<open>roadClosure\<close>), a numeric field with an unparseable text is null, and a coordinate
  entry without a latitude or a longitude is left out. The weather parser gives the empty
  frame for an empty payload, for one that does not decode and for a document that is not
  an object, and exactly one record for an object of the expected shape, with null in each
  column whose place in the response is missing.
\<close>

theorem parser_results:
  "((xml = [] \<or> ET_fromstring L xml = None) \<longrightarrow>
      parse_traffic_response_to_dataframe L xml = empty_frame)
   \<and> (xml \<noteq> [] \<and> ET_fromstring L xml = Some r \<and> coordinates_parse L r \<longrightarrow>
        (\<exists>row. rows (parse_traffic_response_to_dataframe L xml) = [row]
           \<and> (\<forall>t\<in>set scalar_tags. element_find r t = None \<longrightarrow> cell_at row t = null_field t)
           \<and> (\<forall>t\<in>set traffic_numeric_cols. \<forall>e s.
                 element_find r t = Some e \<and> elem_text e = Some s \<and> pd_to_numeric L s = None
                 \<longrightarrow> cell_at row t = CNull)
           \<and> cell_at row ''coordinates'' =
               CCoords (List.map_filter (entry_pair L) (coordinate_entries r))))
   \<and> ((json_data = [] \<or> json_loads L json_data = None
        \<or> (\<exists>d. json_loads L json_data = Some d \<and> (\<forall>kvs. d \<noteq> JObj kvs))) \<longrightarrow>
        parse_weather_response_to_dataframe L now json_data location_coords = empty_frame)
   \<and> (json_data \<noteq> [] \<and> json_loads L json_data = Some data \<and> expected_shape data \<longrightarrow>
        (\<exists>row. rows (parse_weather_response_to_dataframe L now json_data location_coords) = [row]
           \<and> (\<forall>col\<in>set response_columns.
                 response_field data col = JNull \<longrightarrow> cell_at row col = CNull)))"
proof -
  have t_empty: "parse_traffic_response_to_dataframe L xml = empty_frame"
    if "xml = [] \<or> ET_fromstring L xml = None"
    using that by (auto simp: parse_traffic_response_to_dataframe_def)
  have t_row: "\<exists>row. rows (parse_traffic_response_to_dataframe L xml) = [row]
           \<and> (\<forall>t\<in>set scalar_tags. element_find r t = None \<longrightarrow> cell_at row t = null_field t)
           \<and> (\<forall>t\<in>set traffic_numeric_cols. \<forall>e s.
                 element_find r t = Some e \<and> elem_text e = Some s \<and> pd_to_numeric L s = None
                 \<longrightarrow> cell_at row t = CNull)
           \<and> cell_at row ''coordinates'' =
               CCoords (List.map_filter (entry_pair L) (coordinate_entries r))"
    if "xml \<noteq> [] \<and> ET_fromstring L xml = Some r \<and> coordinates_parse L r"
  proof -
    from that traffic_row_cells [of xml L r] obtain row
      where row: "rows (parse_traffic_response_to_dataframe L xml) = [row]"
        "cell_at row ''frc'' = scalar_cell r ''frc''"
        "\<forall>t\<in>set traffic_numeric_cols. cell_at row t = to_numeric_coerce L (scalar_cell r t)"
        "cell_at row ''roadClosure'' = road_closure_flag (scalar_cell r ''roadClosure'')"
        "cell_at row ''coordinates'' =
          CCoords (List.map_filter (entry_pair L) (coordinate_entries r))"
      by blast
    have "cell_at row t = null_field t" if "t \<in> set scalar_tags" "element_find r t = None" for t
    proof -
      from that(1) have "t = ''frc'' \<or> t \<in> set traffic_numeric_cols \<or> t = ''roadClosure''"
        by (auto simp: scalar_tags_def traffic_numeric_cols_def)
      moreover have "t \<noteq> ''roadClosure''" if "t \<in> set traffic_numeric_cols"
        using that by (auto simp: traffic_numeric_cols_def)
      ultimately show ?thesis
        using row(2,3,4) that(2)
        by (auto simp: scalar_cell_def null_field_def to_numeric_coerce_def
            road_closure_flag_def)
    qed
    moreover have "cell_at row t = CNull"
      if "t \<in> set traffic_numeric_cols"
        "element_find r t = Some e \<and> elem_text e = Some s \<and> pd_to_numeric L s = None"
      for t e s
      using row(3) that by (simp add: scalar_cell_def to_numeric_coerce_def)
    ultimately show ?thesis
      using row(1,5) by blast
  qed
  have w_empty: "parse_weather_response_to_dataframe L now json_data location_coords = empty_frame"
    if "json_data = [] \<or> json_loads L json_data = None
        \<or> (\<exists>d. json_loads L json_data = Some d \<and> (\<forall>kvs. d \<noteq> JObj kvs))"
  proof -
    have "parse_weather_response_to_dataframe L now json_data location_coords = empty_frame"
      if "json_loads L json_data = Some d" "\<forall>kvs. d \<noteq> JObj kvs" for d
    proof -
      from that(2) have "\<not> expected_shape d"
        by (cases d) (simp_all add: expected_shape_def)
      from parse_weather_raise [OF that(1) this] show ?thesis .
    qed
    with that show ?thesis
      by (auto simp: parse_weather_response_to_dataframe_def)
  qed
  have w_row: "\<exists>row. rows (parse_weather_response_to_dataframe L now json_data location_coords) = [row]
           \<and> (\<forall>col\<in>set response_columns.
                 response_field data col = JNull \<longrightarrow> cell_at row col = CNull)"
    if "json_data \<noteq> [] \<and> json_loads L json_data = Some data \<and> expected_shape data"
  proof -
    from that have ne: "json_data \<noteq> []" and decode: "json_loads L json_data = Some data"
      and shape: "expected_shape data"
      by simp_all
    from parse_weather_row [OF ne decode shape, of now location_coords]
    obtain row where row: "rows (parse_weather_response_to_dataframe L now json_data
        location_coords) = [row]"
      by simp
    then have "row \<in> set (rows (parse_weather_response_to_dataframe L now json_data
        location_coords))"
      by simp
    from weather_row_cells(4) [OF this decode] row show ?thesis
      by (auto simp: stored_cell_null)
  qed
  from t_empty t_row w_empty w_row show ?thesis
    by blast
qed

theorem parser_results_witness:
  "bad_speed_xml \<noteq> [] \<and> ET_fromstring example_library bad_speed_xml = Some bad_speed_document
   \<and> coordinates_parse example_library bad_speed_document
   \<and> element_find bad_speed_document ''currentSpeed'' =
       Some (Element ''currentSpeed'' (Some ''fast'') [])
   \<and> pd_to_numeric example_library ''fast'' = None
   \<and> element_find bad_speed_document ''confidence'' = None
   \<and> rows (parse_traffic_response_to_dataframe example_library bad_speed_xml) =
       [[(''frc'', CStr ''FRC2''), (''currentSpeed'', CNull),
         (''freeFlowSpeed'', CNull), (''currentTravelTime'', CNull),
         (''freeFlowTravelTime'', CNull), (''confidence'', CNull),
         (''roadClosure'', CBool False), (''coordinate_count'', CInt 0),
         (''coordinates'', CCoords [])]]
   \<and> ET_fromstring example_library ''<flowSegmentData>'' = None
   \<and> parse_traffic_response_to_dataframe example_library ''<flowSegmentData>'' = empty_frame
   \<and> json_loads example_library list_json = Some (JArr [JNum 1, JNum 2])
   \<and> parse_weather_response_to_dataframe example_library example_now list_json example_coords
       = empty_frame
   \<and> no_temp_json \<noteq> [] \<and> json_loads example_library no_temp_json = Some no_temp_document
   \<and> expected_shape no_temp_document
   \<and> length (rows (parse_weather_response_to_dataframe example_library example_now
         no_temp_json example_coords)) = 1"
proof -
  have x: "bad_speed_xml \<noteq> [] \<and> ET_fromstring example_library bad_speed_xml = Some bad_speed_document
      \<and> coordinates_parse example_library bad_speed_document"
    by (simp add: example_defs coordinates_parse_def coordinate_entries_def element_find_def)
  have j: "no_temp_json \<noteq> [] \<and> json_loads example_library no_temp_json = Some no_temp_document
      \<and> expected_shape no_temp_document"
    by (simp add: weather_defs expected_shape_def object_or_absent_def weather_list_ok_def)
  have bad: "''<flowSegmentData>'' = [] \<or> ET_fromstring example_library ''<flowSegmentData>'' = None"
    by (simp add: example_defs)
  have lst: "list_json = [] \<or> json_loads example_library list_json = None
        \<or> (\<exists>d. json_loads example_library list_json = Some d \<and> (\<forall>kvs. d \<noteq> JObj kvs))"
    by (simp add: weather_defs)
  note a = parser_results [where xml = bad_speed_xml and L = example_library
      and r = bad_speed_document and json_data = no_temp_json and data = no_temp_document
      and now = example_now and location_coords = example_coords]
  note b = parser_results [where xml = "''<flowSegmentData>''" and L = example_library
      and json_data = list_json and now = example_now and location_coords = example_coords]
  from a [THEN conjunct2, THEN conjunct1, THEN mp, OF x]
  have "\<exists>row. rows (parse_traffic_response_to_dataframe example_library bad_speed_xml) = [row]"
    by blast
  moreover from a [THEN conjunct2, THEN conjunct2, THEN conjunct2, THEN mp, OF j]
  have "length (rows (parse_weather_response_to_dataframe example_library example_now
         no_temp_json example_coords)) = 1"
    by auto
  moreover from b [THEN conjunct1, THEN mp, OF bad]
  have "parse_traffic_response_to_dataframe example_library ''<flowSegmentData>'' = empty_frame" .
  moreover from b [THEN conjunct2, THEN conjunct2, THEN conjunct1, THEN mp, OF lst]
  have "parse_weather_response_to_dataframe example_library example_now list_json example_coords
       = empty_frame" .
  moreover have "rows (parse_traffic_response_to_dataframe example_library bad_speed_xml) =
       [[(''frc'', CStr ''FRC2''), (''currentSpeed'', CNull),
         (''freeFlowSpeed'', CNull), (''currentTravelTime'', CNull),
         (''freeFlowTravelTime'', CNull), (''confidence'', CNull),
         (''roadClosure'', CBool False), (''coordinate_count'', CInt 0),
         (''coordinates'', CCoords [])]]"
    by (simp add: example_defs traffic_defs)
  moreover have "element_find bad_speed_document ''currentSpeed'' =
       Some (Element ''currentSpeed'' (Some ''fast'') [])
     \<and> pd_to_numeric example_library ''fast'' = None
     \<and> element_find bad_speed_document ''confidence'' = None
     \<and> ET_fromstring example_library ''<flowSegmentData>'' = None
     \<and> json_loads example_library list_json = Some (JArr [JNum 1, JNum 2])"
    by (simp add: example_defs element_find_def weather_defs)
  ultimately show ?thesis
    using x j by simp
qed

text \<open>
  Against claim C2 as stated: the example document of another shape is well formed, its
  top level is not a flow segment, and the traffic parser returns a record for it, not
  the empty result.
\<close>

theorem unexpected_shape_counterexample:
  "ET_fromstring example_library other_xml = Some other_document
   \<and> elem_tag other_document = ''html''
   \<and> length (rows (parse_traffic_response_to_dataframe example_library other_xml)) = 1
   \<and> \<not> frame_empty (parse_traffic_response_to_dataframe example_library other_xml)"
  by (simp add: example_defs traffic_defs frame_empty_def)

text \<open>
  A fault of one field that does lose the record. A latitude that is not a number is a
  fault of one coordinate entry, in a document that parses: \<^verbatim>\<open>float()\<close> raises, the
  handler for any exception returns the empty frame, and the record is lost. In the
  weather parser an empty \<^verbatim>\<open>weather\<close> list, in a response that decodes to an object,
  makes \<^verbatim>\<open>data.get('weather', [{}])[0]\<close> raise, with the same end.
\<close>

lemma field_fault_discards_record:
  "ET_fromstring example_library bad_latitude_xml = Some bad_latitude_document
   \<and> py_float example_library ''abc'' = None
   \<and> parse_traffic_response_to_dataframe example_library bad_latitude_xml = empty_frame
   \<and> json_loads example_library empty_weather_json = Some empty_weather_document
   \<and> weather_get empty_weather_document ''description'' = Inl IndexError
   \<and> parse_weather_response_to_dataframe example_library example_now empty_weather_json
        example_coords = empty_frame"
  by (simp add: example_defs traffic_defs weather_defs)

section \<open>The coordinates of a traffic record\<close>

lemma lacks_value_none: "lacks_value el \<Longrightarrow> given_value L el = None"
  by (auto simp: lacks_value_def given_value_def split: option.splits)

lemma entry_pair_lacking:
  "lacks_value (element_find ce ''latitude'') \<or> lacks_value (element_find ce ''longitude'')
   \<Longrightarrow> entry_pair L ce = None"
  by (auto simp: entry_pair_def lacks_value_none split: option.splits)

lemma coordinates_loop_drop:
  assumes "coordinates_loop L (es1 @ ce # es2) = Inr cl" and "entry_pair L ce = None"
  shows "coordinates_loop L (es1 @ es2) = Inr cl"
proof -
  from assms(1) have "list_all (\<lambda>ce. float_accepts L (element_find ce ''latitude'')
                   \<and> float_accepts L (element_find ce ''longitude'')) (es1 @ ce # es2)"
    by (subst coordinates_loop_ok) blast
  then have "list_all (\<lambda>ce. float_accepts L (element_find ce ''latitude'')
                   \<and> float_accepts L (element_find ce ''longitude'')) (es1 @ es2)"
    by simp
  then obtain cl' where cl': "coordinates_loop L (es1 @ es2) = Inr cl'"
    by (subst (asm) coordinates_loop_ok) blast
  from coordinates_loop_pairs [OF assms(1)] coordinates_loop_pairs [OF cl'] assms(2)
  have "cl' = cl"
    by (simp add: List.map_filter_def)
  with cl' show ?thesis by simp
qed

lemma find_first:
  "\<forall>b\<in>set xs. \<not> P b \<Longrightarrow> P x \<Longrightarrow> List.find P (xs @ x # ys) = Some x"
  by (induction xs) auto

lemma find_replace:
  "\<not> P x \<Longrightarrow> \<not> P y \<Longrightarrow> List.find P (xs @ x # ys) = List.find P (xs @ y # ys)"
  by (simp add: find_insert)

lemma lacking_entry_dropped:
  assumes payload: "xml \<noteq> []" "xml' \<noteq> []"
    and "with": "ET_fromstring L xml =
      Some (Element n tx (before @ Element ''coordinates'' ctx (es1 @ ce # es2) # after))"
    and without: "ET_fromstring L xml' =
      Some (Element n tx (before @ Element ''coordinates'' ctx (es1 @ es2) # after))"
    and first: "\<forall>b\<in>set before. elem_tag b \<noteq> ''coordinates''"
    and lacking: "lacks_value (element_find ce ''latitude'')
                  \<or> lacks_value (element_find ce ''longitude'')"
    and returned: "rows (parse_traffic_response_to_dataframe L xml) \<noteq> []"
  shows "parse_traffic_response_to_dataframe L xml = parse_traffic_response_to_dataframe L xml'"
proof -
  let ?X = "Element ''coordinates'' ctx (es1 @ ce # es2)"
  let ?Y = "Element ''coordinates'' ctx (es1 @ es2)"
  let ?r = "Element n tx (before @ ?X # after)"
  let ?r' = "Element n tx (before @ ?Y # after)"
  let ?P = "\<lambda>c. elem_tag c = ''coordinate''"
  from first have ex: "coordinate_entries ?r = filter ?P (es1 @ ce # es2)"
    and ey: "coordinate_entries ?r' = filter ?P (es1 @ es2)"
    by (simp_all add: coordinate_entries_def element_find_def find_first element_findall_def)
  have scalar: "scalar_cell ?r t = scalar_cell ?r' t" if "t \<in> set scalar_tags" for t
  proof -
    from that have "t \<noteq> ''coordinates''"
      by (auto simp: scalar_tags_def)
    then have "element_find ?r t = element_find ?r' t"
      by (simp add: element_find_def find_insert)
    then show ?thesis
      by (simp add: scalar_cell_def)
  qed
  from returned "with" obtain cl where cl: "coordinates_loop L (coordinate_entries ?r) = Inr cl"
    using parse_traffic_raise [OF "with"]
    by (cases "coordinates_loop L (coordinate_entries ?r)") (auto simp: empty_frame_def)
  have cl': "coordinates_loop L (coordinate_entries ?r') = Inr cl"
  proof (cases "?P ce")
    case True
    with cl have "coordinates_loop L (filter ?P es1 @ ce # filter ?P es2) = Inr cl"
      by (simp add: ex)
    from coordinates_loop_drop [OF this entry_pair_lacking [OF lacking]] show ?thesis
      by (simp add: ey)
  next
    case False
    with cl show ?thesis
      by (simp add: ex ey)
  qed
  show ?thesis
    by (simp only: parse_traffic_row [OF payload(1) "with" cl]
        parse_traffic_row [OF payload(2) without cl'])
      (simp add: scalar scalar_tags_def)
qed

lemma coordinates_loop_all:
  "list_all (\<lambda>ce. given_value L (element_find ce ''latitude'') \<noteq> None
                 \<and> given_value L (element_find ce ''longitude'') \<noteq> None) es
   \<Longrightarrow> \<exists>cl. coordinates_loop L es = Inr cl \<and> length cl = length es"
proof (induction es)
  case Nil
  then show ?case by simp
next
  case (Cons ce es)
  then obtain cl where cl: "coordinates_loop L es = Inr cl" "length cl = length es"
    by auto
  from Cons.prems obtain la lo
    where "coordinate_value L (element_find ce ''latitude'') = Inr (Some la)"
      "coordinate_value L (element_find ce ''longitude'') = Inr (Some lo)"
    by (auto simp: given_value_def coordinate_value_def split: option.splits if_splits)
  with cl show ?case by simp
qed

text \<open>
  What holds of the records that the parser does return: \<^verbatim>\<open>coordinate_count\<close> is the
  length of \<^verbatim>\<open>coordinates\<close>, and the coordinates kept are the pairs of the entries
  that give both a latitude and a longitude, in document order.
\<close>

lemma returned_record_coordinates:
  "(\<forall>row\<in>set (rows (parse_traffic_response_to_dataframe L xml)).
      \<exists>cl. cell_at row ''coordinates'' = CCoords cl
         \<and> cell_at row ''coordinate_count'' = CInt (int (length cl)))
   \<and> (xml \<noteq> [] \<and> ET_fromstring L xml = Some r \<longrightarrow>
        (\<forall>row\<in>set (rows (parse_traffic_response_to_dataframe L xml)).
           cell_at row ''coordinates'' =
             CCoords (List.map_filter (entry_pair L) (coordinate_entries r)))
        \<and> (list_all (\<lambda>ce. given_value L (element_find ce ''latitude'') \<noteq> None
                          \<and> given_value L (element_find ce ''longitude'') \<noteq> None)
              (coordinate_entries r) \<longrightarrow>
            (\<exists>row cl. rows (parse_traffic_response_to_dataframe L xml) = [row]
               \<and> cell_at row ''coordinate_count'' = CInt (int (length (coordinate_entries r)))
               \<and> cell_at row ''coordinates'' = CCoords cl
               \<and> length cl = length (coordinate_entries r))))
   \<and> (lacks_value (element_find ce ''latitude'') \<or> lacks_value (element_find ce ''longitude'')
        \<longrightarrow> entry_pair L ce = None
          \<and> (xml1 \<noteq> [] \<and> xml2 \<noteq> []
              \<and> ET_fromstring L xml1 =
                  Some (Element n tx
                    (before @ Element ''coordinates'' ctx (es1 @ ce # es2) # after))
              \<and> ET_fromstring L xml2 =
                  Some (Element n tx (before @ Element ''coordinates'' ctx (es1 @ es2) # after))
              \<and> (\<forall>b\<in>set before. elem_tag b \<noteq> ''coordinates'')
              \<and> rows (parse_traffic_response_to_dataframe L xml1) \<noteq> []
              \<longrightarrow> parse_traffic_response_to_dataframe L xml1 =
                    parse_traffic_response_to_dataframe L xml2))"
proof -
  have inv: "\<exists>cl. cell_at row ''coordinates'' = CCoords cl
         \<and> cell_at row ''coordinate_count'' = CInt (int (length cl))"
    if row: "row \<in> set (rows (parse_traffic_response_to_dataframe L xml))" for row
  proof -
    from row have ne: "xml \<noteq> []"
      by (auto simp: parse_traffic_response_to_dataframe_def empty_frame_def)
    from row obtain r' where r': "ET_fromstring L xml = Some r'"
      by (auto simp: parse_traffic_response_to_dataframe_def empty_frame_def
          split: if_splits option.splits)
    from row obtain cl where cl: "coordinates_loop L (coordinate_entries r') = Inr cl"
      using parse_traffic_raise [OF r']
      by (cases "coordinates_loop L (coordinate_entries r')") (auto simp: empty_frame_def)
    from row show ?thesis
      by (simp add: parse_traffic_row [OF ne r' cl] cell_at_def)
  qed
  have kept: "cell_at row ''coordinates'' =
             CCoords (List.map_filter (entry_pair L) (coordinate_entries r))"
    if doc: "xml \<noteq> [] \<and> ET_fromstring L xml = Some r"
      and row: "row \<in> set (rows (parse_traffic_response_to_dataframe L xml))" for row
  proof -
    from doc have ne: "xml \<noteq> []" and r: "ET_fromstring L xml = Some r" by simp_all
    from row obtain cl where cl: "coordinates_loop L (coordinate_entries r) = Inr cl"
      using parse_traffic_raise [OF r]
      by (cases "coordinates_loop L (coordinate_entries r)") (auto simp: empty_frame_def)
    from row coordinates_loop_pairs [OF cl] show ?thesis
      by (simp add: parse_traffic_row [OF ne r cl] cell_at_def)
  qed
  have full: "\<exists>row cl. rows (parse_traffic_response_to_dataframe L xml) = [row]
               \<and> cell_at row ''coordinate_count'' = CInt (int (length (coordinate_entries r)))
               \<and> cell_at row ''coordinates'' = CCoords cl
               \<and> length cl = length (coordinate_entries r)"
    if doc: "xml \<noteq> [] \<and> ET_fromstring L xml = Some r"
      and both: "list_all (\<lambda>ce. given_value L (element_find ce ''latitude'') \<noteq> None
                          \<and> given_value L (element_find ce ''longitude'') \<noteq> None)
              (coordinate_entries r)"
  proof -
    from doc have ne: "xml \<noteq> []" and r: "ET_fromstring L xml = Some r" by simp_all
    from coordinates_loop_all [OF both] obtain cl
      where cl: "coordinates_loop L (coordinate_entries r) = Inr cl"
        "length cl = length (coordinate_entries r)"
      by blast
    then show ?thesis
      by (simp add: parse_traffic_row [OF ne r cl(1)] cell_at_def)
  qed
  have drop: "parse_traffic_response_to_dataframe L xml1 =
                    parse_traffic_response_to_dataframe L xml2"
    if "lacks_value (element_find ce ''latitude'') \<or> lacks_value (element_find ce ''longitude'')"
      and "xml1 \<noteq> [] \<and> xml2 \<noteq> []
              \<and> ET_fromstring L xml1 =
                  Some (Element n tx
                    (before @ Element ''coordinates'' ctx (es1 @ ce # es2) # after))
              \<and> ET_fromstring L xml2 =
                  Some (Element n tx (before @ Element ''coordinates'' ctx (es1 @ es2) # after))
              \<and> (\<forall>b\<in>set before. elem_tag b \<noteq> ''coordinates'')
              \<and> rows (parse_traffic_response_to_dataframe L xml1) \<noteq> []"
    using that
      lacking_entry_dropped [of xml1 xml2 L n tx before ctx es1 ce es2 after]
    by blast
  from inv kept full drop entry_pair_lacking [of ce L] show ?thesis
    by blast
qed

text \<open>
  Claim C6, evaluated where it fails. The second coordinate entry of the example has no
  latitude, so the claim has it dropped and the rest of the record kept. Its longitude
  is the text \<^verbatim>\<open>abc\<close>: the source calls \<^verbatim>\<open>float\<close> on it before it looks whether
  both values are there, the call raises, and the handler for any exception returns the
  empty frame. No record is returned, where the same document without that entry gives a
  record with one coordinate. The document whose two entries both have a latitude and a
  longitude, one latitude being \<^verbatim>\<open>abc\<close>, gives no record either, not a count of two.
\<close>

theorem lacking_entry_loses_record:
  "ET_fromstring example_library longitude_only_xml = Some longitude_only_document
   \<and> coordinate_entries longitude_only_document = [full_entry, longitude_only_entry]
   \<and> element_find longitude_only_entry ''latitude'' = None
   \<and> element_find longitude_only_entry ''longitude'' =
       Some (Element ''longitude'' (Some ''abc'') [])
   \<and> py_float example_library ''abc'' = None
   \<and> coordinates_loop example_library (coordinate_entries longitude_only_document)
       = Inl ValueError
   \<and> parse_traffic_response_to_dataframe example_library longitude_only_xml = empty_frame
   \<and> ET_fromstring example_library one_entry_xml = Some one_entry_document
   \<and> coordinate_entries one_entry_document = [full_entry]
   \<and> rows (parse_traffic_response_to_dataframe example_library one_entry_xml) =
       [[(''frc'', CStr ''FRC2''), (''currentSpeed'', CNum 36),
         (''freeFlowSpeed'', CNull), (''currentTravelTime'', CNull),
         (''freeFlowTravelTime'', CNull), (''confidence'', CNull),
         (''roadClosure'', CBool True), (''coordinate_count'', CInt 1),
         (''coordinates'', CCoords [(21 / 2, 213 / 2)])]]
   \<and> ET_fromstring example_library bad_latitude_xml = Some bad_latitude_document
   \<and> coordinate_entries bad_latitude_document = [full_entry, bad_entry]
   \<and> element_find bad_entry ''latitude'' = Some (Element ''latitude'' (Some ''abc'') [])
   \<and> element_find bad_entry ''longitude'' = Some (Element ''longitude'' (Some ''106.5'') [])
   \<and> parse_traffic_response_to_dataframe example_library bad_latitude_xml = empty_frame"
  by (simp add: example_defs traffic_defs)

section \<open>The store loader and the orchestrator\<close>

text \<open>
  Claim C8. Loading an empty table changes nothing: the database is the same, and no
  table is created. Loading a table that is not empty, when the store accepts the
  connection and the statement, leaves the table of that name equal to the table loaded,
  whether it existed or not, and leaves every other table as it was. After two such loads
  under one name the table is the second one, so its row count is that of the second
  load.
\<close>

theorem load_replaces_table:
  "(frame_empty df \<longrightarrow>
      fst (snd (load_transformed_data_to_duckdb df table_name db)) = db)
   \<and> (\<not> frame_empty df \<and> available db \<and> writable db \<longrightarrow>
        map_of (tables (fst (snd (load_transformed_data_to_duckdb df table_name db)))) table_name
          = Some df
        \<and> (\<forall>other. other \<noteq> table_name \<longrightarrow>
              map_of (tables (fst (snd (load_transformed_data_to_duckdb df table_name db)))) other
                = map_of (tables db) other)
        \<and> fst ` set (tables (fst (snd (load_transformed_data_to_duckdb df table_name db))))
            = insert table_name (fst ` set (tables db)))
   \<and> (\<not> frame_empty df \<and> \<not> frame_empty df2 \<and> available db \<and> writable db \<longrightarrow>
        map_of (tables (fst (snd (load_transformed_data_to_duckdb df2 table_name
           (fst (snd (load_transformed_data_to_duckdb df table_name db))))))) table_name
          = Some df2
        \<and> (\<forall>t. map_of (tables (fst (snd (load_transformed_data_to_duckdb df2 table_name
                 (fst (snd (load_transformed_data_to_duckdb df table_name db))))))) table_name
               = Some t \<longrightarrow> length (rows t) = length (rows df2)))"
  by (auto simp: load_transformed_data_to_duckdb_def update_conv' dom_update)

text \<open>
  Claim C9, as the code has it. When the store fails, on the connection or on the
  statement, the loader opens one connection and no more, prints the error, leaves the
  tables as they were and returns normally, as it does after a load that worked: its
  caller is told nothing. The orchestrator then prints that the pipeline finished and
  returns normally too.
\<close>

theorem load_failure_is_printed:
  assumes "\<not> frame_empty df" and "\<not> available db \<or> \<not> writable db"
  shows "fst (load_transformed_data_to_duckdb df table_name db) = Inr ()
       \<and> tables (fst (snd (load_transformed_data_to_duckdb df table_name db))) = tables db
       \<and> connections (fst (snd (load_transformed_data_to_duckdb df table_name db)))
           = connections db + 1
       \<and> ''Error loading data to DuckDB''
           \<in> set (snd (snd (load_transformed_data_to_duckdb df table_name db)))
       \<and> (TOMTOM_API_KEY CONFIG = Some key \<and> key \<noteq> [] \<and> ROUTE_POINTS_EXAMPLE CONFIG \<noteq> []
           \<and> extract_traffic_data_for_areas (ROUTE_POINTS_EXAMPLE CONFIG) \<noteq> []
           \<and> transform_traffic_data read_parquet
                 (extract_traffic_data_for_areas (ROUTE_POINTS_EXAMPLE CONFIG))
               = Inr (df, av, est)
           \<longrightarrow> fst (main CONFIG extract_traffic_data_for_areas read_parquet db) = Inr ()
             \<and> tables (fst (snd (main CONFIG extract_traffic_data_for_areas read_parquet db)))
                 = tables db
             \<and> connections (fst (snd (main CONFIG extract_traffic_data_for_areas read_parquet db)))
                 = connections db + 1
             \<and> last (snd (snd (main CONFIG extract_traffic_data_for_areas read_parquet db)))
                 = ''ETL Pipeline Finished'')"
  using assms
  by (auto simp: load_transformed_data_to_duckdb_def main_def Let_def)

theorem load_replaces_table_witness:
  "\<not> frame_empty three_rows \<and> \<not> frame_empty one_row
   \<and> available empty_store \<and> writable empty_store
   \<and> map_of (tables (fst (snd (load_transformed_data_to_duckdb three_rows ''traffic_data''
         empty_store)))) ''traffic_data'' = Some three_rows
   \<and> map_of (tables (fst (snd (load_transformed_data_to_duckdb one_row ''traffic_data''
         (fst (snd (load_transformed_data_to_duckdb three_rows ''traffic_data''
            empty_store))))))) ''traffic_data'' = Some one_row
   \<and> length (rows one_row) = 1 \<and> length (rows three_rows) = 3
   \<and> frame_empty empty_frame
   \<and> fst (snd (load_transformed_data_to_duckdb empty_frame ''traffic_data''
         (fst (snd (load_transformed_data_to_duckdb three_rows ''traffic_data'' empty_store)))))
       = fst (snd (load_transformed_data_to_duckdb three_rows ''traffic_data'' empty_store))"
proof -
  have ne: "\<not> frame_empty three_rows" "\<not> frame_empty one_row"
    by (simp_all add: frame_empty_def three_rows_def one_row_def)
  have up: "available empty_store" "writable empty_store"
    by (simp_all add: empty_store_def)
  have e: "frame_empty empty_frame"
    by (simp add: frame_empty_def empty_frame_def)
  note once = load_replaces_table [where df = three_rows and db = empty_store
      and table_name = "''traffic_data''" and ?df2.0 = one_row]
  from once [THEN conjunct2, THEN conjunct1] ne up
  have first: "map_of (tables (fst (snd (load_transformed_data_to_duckdb three_rows
      ''traffic_data'' empty_store)))) ''traffic_data'' = Some three_rows"
    by simp
  from once [THEN conjunct2, THEN conjunct2] ne up
  have second: "map_of (tables (fst (snd (load_transformed_data_to_duckdb one_row
      ''traffic_data'' (fst (snd (load_transformed_data_to_duckdb three_rows ''traffic_data''
            empty_store))))))) ''traffic_data'' = Some one_row"
    by simp
  from load_replaces_table [where df = empty_frame and table_name = "''traffic_data''"
      and db = "fst (snd (load_transformed_data_to_duckdb three_rows ''traffic_data''
         empty_store))", THEN conjunct1] e
  have noop: "fst (snd (load_transformed_data_to_duckdb empty_frame ''traffic_data''
         (fst (snd (load_transformed_data_to_duckdb three_rows ''traffic_data'' empty_store)))))
       = fst (snd (load_transformed_data_to_duckdb three_rows ''traffic_data'' empty_store))"
    by simp
  have "length (rows one_row) = 1 \<and> length (rows three_rows) = 3"
    by (simp add: one_row_def three_rows_def)
  with ne up e first second noop show ?thesis
    by simp
qed

theorem load_failure_is_printed_witness:
  "\<not> frame_empty three_rows \<and> \<not> available unavailable_store
   \<and> TOMTOM_API_KEY example_config = Some ''key''
   \<and> transform_traffic_data example_files (example_extract (ROUTE_POINTS_EXAMPLE example_config))
       = Inr (three_rows, three_rows_averages, PyFloat 500)
   \<and> load_transformed_data_to_duckdb three_rows ''traffic_data'' unavailable_store =
       (Inr (), unavailable_store\<lparr>connections := 1\<rparr>,
        [''Error loading data to DuckDB'', ''Load Phase (DuckDB) Complete''])
   \<and> fst (main example_config example_extract example_files unavailable_store) = Inr ()
   \<and> tables (fst (snd (main example_config example_extract example_files unavailable_store)))
       = []
   \<and> last (snd (snd (main example_config example_extract example_files unavailable_store)))
       = ''ETL Pipeline Finished''"
proof -
  have ne: "\<not> frame_empty three_rows"
    by (simp add: frame_empty_def three_rows_def)
  have down: "\<not> available unavailable_store \<or> \<not> writable unavailable_store"
    by (simp add: unavailable_store_def)
  have run: "transform_traffic_data example_files
      (example_extract (ROUTE_POINTS_EXAMPLE example_config))
       = Inr (three_rows, three_rows_averages, PyFloat 500)"
    using example_run_three by (simp add: example_extract_def example_config_def)
  have cfg: "TOMTOM_API_KEY example_config = Some ''key'' \<and> ''key'' \<noteq> []
      \<and> ROUTE_POINTS_EXAMPLE example_config \<noteq> []
      \<and> example_extract (ROUTE_POINTS_EXAMPLE example_config) \<noteq> []"
    by (simp add: example_config_def example_extract_def)
  note t = load_failure_is_printed [where df = three_rows and db = unavailable_store
      and table_name = "''traffic_data''" and CONFIG = example_config and ?key = "''key''"
      and extract_traffic_data_for_areas = example_extract and read_parquet = example_files
      and av = three_rows_averages and est = "PyFloat 500", OF ne down]
  from t [THEN conjunct2, THEN conjunct2, THEN conjunct2, THEN conjunct2, THEN mp,
      OF conjI [OF cfg [THEN conjunct1] conjI [OF cfg [THEN conjunct2, THEN conjunct1]
        conjI [OF cfg [THEN conjunct2, THEN conjunct2, THEN conjunct1]
          conjI [OF cfg [THEN conjunct2, THEN conjunct2, THEN conjunct2] run]]]]]
  have m: "fst (main example_config example_extract example_files unavailable_store) = Inr ()
     \<and> tables (fst (snd (main example_config example_extract example_files unavailable_store)))
         = tables unavailable_store
     \<and> last (snd (snd (main example_config example_extract example_files unavailable_store)))
         = ''ETL Pipeline Finished''"
    by simp
  have l: "load_transformed_data_to_duckdb three_rows ''traffic_data'' unavailable_store =
       (Inr (), unavailable_store\<lparr>connections := 1\<rparr>,
        [''Error loading data to DuckDB'', ''Load Phase (DuckDB) Complete''])"
    using ne by (simp add: load_transformed_data_to_duckdb_def unavailable_store_def)
  from m l ne run cfg show ?thesis
    by (simp add: unavailable_store_def)
qed

text \<open>
  Against claim C9 as stated: with the store out of reach the loader returns to its caller
  as it does when the load works, and the orchestrator ends normally with its closing
  line; nothing but the printed text tells the two runs apart.
\<close>

theorem load_failure_counterexample:
  "fst (load_transformed_data_to_duckdb three_rows ''traffic_data'' unavailable_store) = Inr ()
   \<and> fst (load_transformed_data_to_duckdb three_rows ''traffic_data'' empty_store) = Inr ()
   \<and> tables (fst (snd (load_transformed_data_to_duckdb three_rows ''traffic_data''
        unavailable_store))) = []
   \<and> main example_config example_extract example_files unavailable_store =
       (Inr (), unavailable_store\<lparr>connections := 1\<rparr>,
        [''Error loading data to DuckDB'', ''Load Phase (DuckDB) Complete'',
         ''ETL Pipeline Finished''])"
proof -
  have ne: "\<not> frame_empty three_rows"
    by (simp add: frame_empty_def three_rows_def)
  show ?thesis
    using ne
    by (simp add: main_def example_run_three load_transformed_data_to_duckdb_def
        unavailable_store_def empty_store_def example_config_def example_extract_def)
qed

end
